theory Spec2Isabelle
  imports Complex_Main
begin

section \<open>The risk engine of Neo\_Tracker\<close>

text \<open>
  A shallow embedding of \<^verbatim>\<open>backend/app/services/risk_calculator.py\<close> and of the
  decorator \<^verbatim>\<open>handle_exceptions\<close> of \<^verbatim>\<open>backend/app/core/exceptions.py\<close>.

  Conventions of the embedding.
  \<^item> A Python \<^verbatim>\<open>float\<close> is a \<^typ>\<open>real\<close>: comparisons against the thresholds and the
    sums of the factor scores are exact, there is no NaN and no infinity. Where the
    float range is visible to a caller as an exception, the \<^verbatim>\<open>OverflowError\<close> of the power
    operator \<^verbatim>\<open>**\<close> on a finite base, it is a branch of the model (in
    \<open>estimate_diameter_from_magnitude\<close> and in \<open>calculate_impact_energy\<close>). A product that
    leaves the float range is an infinity in Python and raises nothing; the model has no
    value for it, and the statements about \<open>calculate_impact_energy\<close> say which values they
    take to be in range.
  \<^item> \<^verbatim>\<open>Optional[float]\<close> is \<^typ>\<open>real option\<close>; Python's truth test \<^verbatim>\<open>if x and ...\<close>
    on such a value is \<open>truthy_and\<close> below: \<^verbatim>\<open>None\<close> and \<^verbatim>\<open>0.0\<close> are both false.
  \<^item> An exception is a value: every function that can raise returns
    \<open>py_exception + 'a\<close>, with \<open>Inl\<close> the exception.
  \<^item> The clock \<^verbatim>\<open>datetime.now(timezone.utc)\<close> is the parameter \<open>now\<close>, in microseconds.
  \<^item> Log calls have no effect on the result and are left out.
\<close>

subsection \<open>Exceptions\<close>

text \<open>The class hierarchy below \<^verbatim>\<open>NEOTrackerException\<close>.\<close>

datatype exception_class =
    NEOTrackerException
  | NASAAPIError
  | ExternalAPIError
  | DataProcessingError
  | DataValidationError
  | DataTransformationError
  | DatabaseError
  | DatabaseConnectionError
  | DatabaseQueryError
  | AsteroidNotFoundError
  | RiskCalculationError
  | InvalidDateRangeError

text \<open>
  A raised exception is either an instance of a class of the hierarchy, with its
  \<^verbatim>\<open>message\<close>, \<^verbatim>\<open>details\<close> and \<^verbatim>\<open>original_exception\<close>, or any other
  \<^verbatim>\<open>Exception\<close> of Python, known by its class name.
\<close>

datatype py_exception =
    PyException string
  | NEOTracker exception_class string "(string \<times> string) list" "py_exception option"

fun is_NEOTrackerException :: "py_exception \<Rightarrow> bool" where
  "is_NEOTrackerException (NEOTracker c msg details orig) = True"
| "is_NEOTrackerException (PyException n) = False"


text \<open>
  \<^verbatim>\<open>handle_exceptions(reraise_as, log_level)(func)\<close>: the wrapper returns what the
  function returns, re-raises a \<^verbatim>\<open>NEOTrackerException\<close> as it is, and wraps any other
  \<^verbatim>\<open>Exception\<close>. The second argument is \<^verbatim>\<open>func.__name__\<close>, the third the outcome of
  \<^verbatim>\<open>func(*args, **kwargs)\<close>.
\<close>

definition handle_exceptions ::
  "exception_class option \<Rightarrow> string \<Rightarrow> py_exception + 'a \<Rightarrow> py_exception + 'a" where
  "handle_exceptions reraise_as func_name outcome =
     (case outcome of
        Inr v \<Rightarrow> Inr v
      | Inl e \<Rightarrow>
          if is_NEOTrackerException e then Inl e
          else (case reraise_as of
                  Some cls \<Rightarrow>
                    Inl (NEOTracker cls (''Error in '' @ func_name)
                           [(''function'', func_name)] (Some e))
                | None \<Rightarrow>
                    Inl (NEOTracker NEOTrackerException (''Unexpected error in '' @ func_name)
                           [(''function'', func_name)] (Some e))))"

subsection \<open>Configuration and result\<close>

record RiskThresholds =
  distance_critical :: real
  distance_very_high :: real
  distance_high :: real
  distance_medium :: real
  distance_low :: real
  diameter_critical :: real
  diameter_very_high :: real
  diameter_high :: real
  diameter_medium :: real
  diameter_low :: real
  velocity_critical :: real
  velocity_very_high :: real
  velocity_high :: real
  velocity_medium :: real
  velocity_low :: real
  time_critical :: real
  time_very_high :: real
  time_high :: real
  time_medium :: real

text \<open>\<^verbatim>\<open>RiskThresholds()\<close>: the defaults of the dataclass.\<close>

definition default_thresholds :: RiskThresholds where
  "default_thresholds =
     \<lparr> distance_critical = 100000, distance_very_high = 384400, distance_high = 1926000,
       distance_medium = 7704000, distance_low = 77040000,
       diameter_critical = 10, diameter_very_high = 1, diameter_high = 14 / 100,
       diameter_medium = 5 / 100, diameter_low = 1 / 100,
       velocity_critical = 200000, velocity_very_high = 100000, velocity_high = 50000,
       velocity_medium = 25000, velocity_low = 10000,
       time_critical = 7, time_very_high = 30, time_high = 365, time_medium = 3650 \<rparr>"

text \<open>
  \<^verbatim>\<open>RiskThresholds.from_settings()\<close>: three fields come from the settings, given here as
  arguments (\<^verbatim>\<open>risk_threshold_distance_km\<close>, \<^verbatim>\<open>risk_threshold_diameter_km\<close>,
  \<^verbatim>\<open>risk_threshold_velocity_kmh\<close>).
\<close>

definition from_settings :: "real \<Rightarrow> real \<Rightarrow> real \<Rightarrow> RiskThresholds" where
  "from_settings risk_threshold_distance_km risk_threshold_diameter_km risk_threshold_velocity_kmh =
     default_thresholds \<lparr> distance_high := risk_threshold_distance_km,
                          diameter_high := risk_threshold_diameter_km,
                          velocity_high := risk_threshold_velocity_kmh \<rparr>"

datatype RiskFactor =
    SIZE | DISTANCE | VELOCITY | TIME_TO_APPROACH | NASA_CLASSIFICATION
  | ORBIT_UNCERTAINTY | IMPACT_PROBABILITY

fun RiskFactor_value :: "RiskFactor \<Rightarrow> string" where
  "RiskFactor_value SIZE = ''size''"
| "RiskFactor_value DISTANCE = ''distance''"
| "RiskFactor_value VELOCITY = ''velocity''"
| "RiskFactor_value TIME_TO_APPROACH = ''time_to_approach''"
| "RiskFactor_value NASA_CLASSIFICATION = ''nasa_classification''"
| "RiskFactor_value ORBIT_UNCERTAINTY = ''orbit_uncertainty''"
| "RiskFactor_value IMPACT_PROBABILITY = ''impact_probability''"

text \<open>
  A \<^verbatim>\<open>datetime\<close>, as far as the calculator reads it: whether it carries a time zone,
  its calendar year, and the instant it denotes, in microseconds since the epoch.
\<close>

record py_datetime =
  tz_aware :: bool
  year :: int
  micros :: int

text \<open>A value of a keyword argument the calculator never reads.\<close>

datatype py_value = PyNone | PyBool bool | PyFloat real | PyStr string

subsection \<open>Python primitives\<close>

text \<open>
  \<^verbatim>\<open>x and P(x)\<close> for an \<^verbatim>\<open>Optional[float]\<close> in a condition: \<^verbatim>\<open>None\<close> and zero
  are false, so the comparison is reached for a non-zero number only.
\<close>

definition truthy_and :: "real option \<Rightarrow> (real \<Rightarrow> bool) \<Rightarrow> bool" where
  "truthy_and x P = (case x of None \<Rightarrow> False | Some v \<Rightarrow> v \<noteq> 0 \<and> P v)"

text \<open>\<^verbatim>\<open>d.get(key, default)\<close> on an association list.\<close>

definition dict_get :: "(string \<times> real) list \<Rightarrow> string \<Rightarrow> real \<Rightarrow> real" where
  "dict_get d k dflt = (case map_of d k of None \<Rightarrow> dflt | Some v \<Rightarrow> v)"

text \<open>
  \<^verbatim>\<open>round(x, n)\<close>: to the nearest multiple of \<open>10\<^sup>-\<^sup>n\<close>, a tie going to the even
  neighbour.
\<close>

definition round_half_even :: "real \<Rightarrow> int" where
  "round_half_even x =
     (let f = \<lfloor>x\<rfloor>; r = x - of_int f
      in if r < 1 / 2 then f else if 1 / 2 < r then f + 1 else if even f then f else f + 1)"

definition py_round :: "real \<Rightarrow> nat \<Rightarrow> real" where
  "py_round x n = of_int (round_half_even (x * 10 ^ n)) / 10 ^ n"

text \<open>\<^verbatim>\<open>str\<close> of a non-negative integer, for the f-string of the decade.\<close>

fun string_of_nat :: "nat \<Rightarrow> string" where
  "string_of_nat n =
     (if n < 10 then [''0123456789'' ! n]
      else string_of_nat (n div 10) @ [''0123456789'' ! (n mod 10)])"

declare string_of_nat.simps [simp del]

definition string_of_int :: "int \<Rightarrow> string" where
  "string_of_int i = (if i < 0 then ''-'' @ string_of_nat (nat (- i)) else string_of_nat (nat i))"

text \<open>
  The largest finite double, and the numbers within its range. A power \<^verbatim>\<open>x ** y\<close> of a
  finite \<^verbatim>\<open>x\<close> raises \<^verbatim>\<open>OverflowError\<close> when the result is not in the range.
\<close>

definition float_max :: real where
  "float_max = (2 ^ 53 - 1) * 2 ^ 971"

definition in_float_range :: "real \<Rightarrow> bool" where
  "in_float_range x = (\<bar>x\<bar> \<le> float_max)"

subsection \<open>The narrative entries\<close>

text \<open>
  The strings of the source, in UTF-8: \<^verbatim>\<open>0xC3 0xB1\<close> is n with tilde, \<^verbatim>\<open>0xC3 0xB3\<close> is
  o with acute, \<^verbatim>\<open>0xC3 0xA1\<close> a with acute, \<^verbatim>\<open>0xC3 0xAD\<close> i with acute.
\<close>

definition concern_large :: string where
  "concern_large = ''Asteroide de gran tama'' @ [CHR 0xC3, CHR 0xB1] @ ''o con potencial devastador''"

definition concern_close :: string where
  "concern_close = ''Aproximaci'' @ [CHR 0xC3, CHR 0xB3] @ ''n extremadamente cercana''"

definition concern_fast :: string where
  "concern_fast = ''Velocidad de impacto muy alta''"

definition concern_imminent :: string where
  "concern_imminent = ''Aproximaci'' @ [CHR 0xC3, CHR 0xB3] @ ''n inminente''"

definition factor_pha :: string where
  "factor_pha = ''Clasificado como Potencialmente Peligroso por NASA''"

definition factor_size :: string where
  "factor_size = ''Tama'' @ [CHR 0xC3, CHR 0xB1] @ ''o significativo''"

definition factor_proximity :: string where
  "factor_proximity = ''Proximidad notable a la Tierra''"

definition mitigating_distance :: string where
  "mitigating_distance = ''Distancia de paso segura''"

definition mitigating_small :: string where
  "mitigating_small =
     ''Tama'' @ [CHR 0xC3, CHR 0xB1] @ ''o muy peque'' @ [CHR 0xC3, CHR 0xB1]
       @ ''o, impacto m'' @ [CHR 0xC3, CHR 0xAD] @ ''nimo''"

definition mitigating_far_future :: string where
  "mitigating_far_future = ''Aproximaci'' @ [CHR 0xC3, CHR 0xB3] @ ''n en futuro distante''"


subsection \<open>The factor scorers\<close>

text \<open>\<^verbatim>\<open>_estimate_diameter_from_magnitude\<close>, with the albedo 0.25.\<close>

definition estimate_diameter_from_magnitude :: "real \<Rightarrow> py_exception + real" where
  "estimate_diameter_from_magnitude absolute_magnitude =
     (let albedo = 25 / 100;
          y = - (2 / 10) * absolute_magnitude
      in if float_max < 10 powr y then Inl (PyException ''OverflowError'')
         else Inr ((1329 / sqrt albedo) * (10 powr y)))"

text \<open>The ladder of \<^verbatim>\<open>_calculate_size_score\<close> on a known diameter.\<close>

definition size_ladder :: "RiskThresholds \<Rightarrow> real \<Rightarrow> real" where
  "size_ladder th diameter_km =
     (if diameter_critical th \<le> diameter_km then 25
      else if diameter_very_high th \<le> diameter_km then 22
      else if diameter_high th \<le> diameter_km then 18
      else if diameter_medium th \<le> diameter_km then 12
      else if diameter_low th \<le> diameter_km then 6
      else 2)"

definition calculate_size_score ::
  "RiskThresholds \<Rightarrow> real option \<Rightarrow> real option \<Rightarrow> py_exception + real" where
  "calculate_size_score th diameter_km absolute_magnitude =
     (case diameter_km of
        Some d \<Rightarrow> Inr (size_ladder th d)
      | None \<Rightarrow>
          (case absolute_magnitude of
             None \<Rightarrow> Inr 0
           | Some h \<Rightarrow>
               (case estimate_diameter_from_magnitude h of
                  Inl e \<Rightarrow> Inl e
                | Inr d \<Rightarrow> Inr (size_ladder th d))))"

definition calculate_distance_score :: "RiskThresholds \<Rightarrow> real option \<Rightarrow> real" where
  "calculate_distance_score th miss_distance_km =
     (case miss_distance_km of
        None \<Rightarrow> 0
      | Some m \<Rightarrow>
          if m \<le> distance_critical th then 25
          else if m \<le> distance_very_high th then 20
          else if m \<le> distance_high th then 15
          else if m \<le> distance_medium th then 10
          else if m \<le> distance_low th then 5
          else 1)"

definition calculate_velocity_score :: "RiskThresholds \<Rightarrow> real option \<Rightarrow> real" where
  "calculate_velocity_score th velocity_kmh =
     (case velocity_kmh of
        None \<Rightarrow> 0
      | Some v \<Rightarrow>
          if velocity_critical th \<le> v then 20
          else if velocity_very_high th \<le> v then 16
          else if velocity_high th \<le> v then 12
          else if velocity_medium th \<le> v then 8
          else if velocity_low th \<le> v then 4
          else 1)"

text \<open>
  \<^verbatim>\<open>_calculate_time_score\<close>. Comparing a naive \<^verbatim>\<open>datetime\<close> with the aware
  \<^verbatim>\<open>now\<close> raises \<^verbatim>\<open>TypeError\<close>. \<^verbatim>\<open>(now - approach_date).days\<close> is the whole number of
  days of a positive difference; \<^verbatim>\<open>total_seconds() / (24 * 3600)\<close> is fractional.
\<close>

definition calculate_time_score ::
  "RiskThresholds \<Rightarrow> int \<Rightarrow> py_datetime option \<Rightarrow> py_exception + (real \<times> real option)" where
  "calculate_time_score th now approach_date =
     (case approach_date of
        None \<Rightarrow> Inr (0, None)
      | Some d \<Rightarrow>
          if \<not> tz_aware d then Inl (PyException ''TypeError'')
          else if micros d < now then
            (let days_past = (now - micros d) div 86400000000
             in if days_past \<le> 30 then Inr (8, Some (- real_of_int days_past))
                else Inr (2, Some (- real_of_int days_past)))
          else
            (let days_until = (real_of_int (micros d - now) / 1000000) / (24 * 3600)
             in if days_until \<le> time_critical th then Inr (15, Some days_until)
                else if days_until \<le> time_very_high th then Inr (12, Some days_until)
                else if days_until \<le> time_high th then Inr (8, Some days_until)
                else if days_until \<le> time_medium th then Inr (4, Some days_until)
                else Inr (1, Some days_until)))"

definition calculate_nasa_classification_score :: "bool \<Rightarrow> bool \<Rightarrow> real" where
  "calculate_nasa_classification_score is_potentially_hazardous is_sentry_object =
     (let score = 0;
          score = (if is_sentry_object then score + 10 else score);
          score = (if is_potentially_hazardous then score + 5 else score)
      in min score 15)"


subsection \<open>Combination, level, narrative, monitoring\<close>

text \<open>
  \<^verbatim>\<open>_apply_modifiers\<close>. It receives the \<^verbatim>\<open>diameter_km\<close> of the caller, not the
  diameter estimated inside \<^verbatim>\<open>_calculate_size_score\<close>.
\<close>

definition apply_modifiers ::
  "real \<Rightarrow> (string \<times> real) list \<Rightarrow> real option \<Rightarrow> real option \<Rightarrow> real \<times> real" where
  "apply_modifiers base_score factor_scores diameter_km miss_distance_km =
     (let modified_score = base_score;
          confidence = 1;
          modified_score =
            (if truthy_and diameter_km (\<lambda>d. 5 / 10 < d)
                \<and> truthy_and miss_distance_km (\<lambda>m. m < 1000000)
             then modified_score + 5 else modified_score);
          missing_data_penalty = 0;
          missing_data_penalty =
            (if diameter_km = None then missing_data_penalty + 3 / 10 else missing_data_penalty);
          missing_data_penalty =
            (if miss_distance_km = None then missing_data_penalty + 2 / 10
             else missing_data_penalty);
          confidence = max (1 / 10) (confidence - missing_data_penalty);
          final_score = max 0 (min 100 modified_score)
      in (final_score, confidence))"

definition determine_risk_level :: "real \<Rightarrow> string" where
  "determine_risk_level score =
     (if 90 \<le> score then ''critical''
      else if 70 \<le> score then ''very_high''
      else if 50 \<le> score then ''high''
      else if 30 \<le> score then ''medium''
      else if 10 \<le> score then ''low''
      else ''very_low'')"

text \<open>
  \<^verbatim>\<open>_analyze_qualitative_factors\<close>: three lists, each entry appended when its own
  condition holds, in the order of the source.
\<close>

definition analyze_qualitative_factors ::
  "(string \<times> real) list \<Rightarrow> real option \<Rightarrow> real option \<Rightarrow> real option \<Rightarrow> bool \<Rightarrow>
     real option \<Rightarrow> string list \<times> string list \<times> string list" where
  "analyze_qualitative_factors factor_scores diameter_km miss_distance_km velocity_kmh
       is_potentially_hazardous time_to_approach =
     (let concerns =
            (if truthy_and diameter_km (\<lambda>d. 1 < d) then [concern_large] else [])
          @ (if truthy_and miss_distance_km (\<lambda>m. m < 400000) then [concern_close] else [])
          @ (if truthy_and velocity_kmh (\<lambda>v. 100000 < v) then [concern_fast] else [])
          @ (if truthy_and time_to_approach (\<lambda>t. 0 < t \<and> t < 365) then [concern_imminent]
             else []);
          risk_factors =
            (if is_potentially_hazardous then [factor_pha] else [])
          @ (if 15 < dict_get factor_scores ''size'' 0 then [factor_size] else [])
          @ (if 15 < dict_get factor_scores ''distance'' 0 then [factor_proximity] else []);
          mitigating =
            (if truthy_and miss_distance_km (\<lambda>m. 10000000 < m) then [mitigating_distance]
             else [])
          @ (if truthy_and diameter_km (\<lambda>d. d < 1 / 100) then [mitigating_small] else [])
          @ (if truthy_and time_to_approach (\<lambda>t. 3650 < t) then [mitigating_far_future]
             else [])
      in (concerns, risk_factors, mitigating))"

text \<open>\<^verbatim>\<open>_determine_monitoring_recommendations\<close>, returning (priority, frequency).\<close>

definition base_monitoring :: "string \<Rightarrow> string \<times> string" where
  "base_monitoring level =
     (if level \<in> set [''critical'', ''very_high''] then (''critical'', ''daily'')
      else if level = ''high'' then (''high'', ''weekly'')
      else if level = ''medium'' then (''medium'', ''monthly'')
      else (''low'', ''yearly''))"

definition determine_monitoring_recommendations ::
  "real \<Rightarrow> string \<Rightarrow> real option \<Rightarrow> string \<times> string" where
  "determine_monitoring_recommendations score level time_to_approach =
     (let (priority, frequency) = base_monitoring level
      in if truthy_and time_to_approach (\<lambda>t. 0 < t \<and> t < 30)
         then (if priority = ''low'' then ''medium'' else priority, ''daily'')
         else (priority, frequency))"

definition determine_approach_decade :: "py_datetime option \<Rightarrow> string option" where
  "determine_approach_decade approach_date =
     (case approach_date of
        None \<Rightarrow> None
      | Some d \<Rightarrow>
          (let decade_start = (year d div 10) * 10
           in Some (string_of_int decade_start @ ''s'')))"

subsection \<open>The result and \<^verbatim>\<open>calculate_risk\<close>\<close>

text \<open>
  \<^verbatim>\<open>factor_scores\<close> is a dict filled in a fixed order with distinct keys: an association
  list in insertion order.
\<close>

record RiskAnalysis =
  overall_score :: real
  risk_level :: string
  confidence :: real
  factor_scores :: "(string \<times> real) list"
  primary_concerns :: "string list"
  risk_factors :: "string list"
  mitigating_factors :: "string list"
  time_to_approach_days :: "real option"
  approach_decade :: "string option"
  monitoring_priority :: string
  observation_frequency :: string

text \<open>
  The body of \<^verbatim>\<open>calculate_risk\<close>, before the decorator. The first two arguments are
  \<^verbatim>\<open>self.thresholds\<close> and the clock; the last is \<^verbatim>\<open>**additional_factors\<close>.
\<close>

definition calculate_risk_body ::
  "RiskThresholds \<Rightarrow> int \<Rightarrow> real option \<Rightarrow> real option \<Rightarrow> real option \<Rightarrow>
     py_datetime option \<Rightarrow> bool \<Rightarrow> bool \<Rightarrow> real option \<Rightarrow> (string \<times> py_value) list \<Rightarrow>
     py_exception + RiskAnalysis" where
  "calculate_risk_body th now diameter_km miss_distance_km velocity_kmh approach_date
       is_potentially_hazardous is_sentry_object absolute_magnitude additional_factors =
     (case calculate_size_score th diameter_km absolute_magnitude of
        Inl e \<Rightarrow> Inl e
      | Inr size_score \<Rightarrow>
          (let distance_score = calculate_distance_score th miss_distance_km;
               velocity_score = calculate_velocity_score th velocity_kmh
           in case calculate_time_score th now approach_date of
                Inl e \<Rightarrow> Inl e
              | Inr (time_score, time_to_approach) \<Rightarrow>
                  (let nasa_score =
                         calculate_nasa_classification_score is_potentially_hazardous
                           is_sentry_object;
                       fscores =
                         [(RiskFactor_value SIZE, size_score),
                          (RiskFactor_value DISTANCE, distance_score),
                          (RiskFactor_value VELOCITY, velocity_score),
                          (RiskFactor_value TIME_TO_APPROACH, time_score),
                          (RiskFactor_value NASA_CLASSIFICATION, nasa_score)];
                       base_score = sum_list (map snd fscores);
                       (final_score, conf) =
                         apply_modifiers base_score fscores diameter_km miss_distance_km;
                       level = determine_risk_level final_score;
                       (concerns, risk_factors_list, mitigating) =
                         analyze_qualitative_factors fscores diameter_km miss_distance_km
                           velocity_kmh is_potentially_hazardous time_to_approach;
                       (priority, observation_freq) =
                         determine_monitoring_recommendations final_score level time_to_approach;
                       decade = determine_approach_decade approach_date
                   in Inr \<lparr> overall_score = py_round final_score 1,
                            risk_level = level,
                            confidence = py_round conf 2,
                            factor_scores = map (\<lambda>(k, v). (k, py_round v 1)) fscores,
                            primary_concerns = concerns,
                            risk_factors = risk_factors_list,
                            mitigating_factors = mitigating,
                            time_to_approach_days = time_to_approach,
                            approach_decade = decade,
                            monitoring_priority = priority,
                            observation_frequency = observation_freq \<rparr>)))"

text \<open>\<^verbatim>\<open>@handle_exceptions(reraise_as=RiskCalculationError) def calculate_risk\<close>.\<close>

definition calculate_risk ::
  "RiskThresholds \<Rightarrow> int \<Rightarrow> real option \<Rightarrow> real option \<Rightarrow> real option \<Rightarrow>
     py_datetime option \<Rightarrow> bool \<Rightarrow> bool \<Rightarrow> real option \<Rightarrow> (string \<times> py_value) list \<Rightarrow>
     py_exception + RiskAnalysis" where
  "calculate_risk th now diameter_km miss_distance_km velocity_kmh approach_date
       is_potentially_hazardous is_sentry_object absolute_magnitude additional_factors =
     handle_exceptions (Some RiskCalculationError) ''calculate_risk''
       (calculate_risk_body th now diameter_km miss_distance_km velocity_kmh approach_date
          is_potentially_hazardous is_sentry_object absolute_magnitude additional_factors)"

text \<open>
  \<^verbatim>\<open>calculate_impact_energy\<close>, in megatons of TNT. The statements are taken in the order of
  the source: \<^verbatim>\<open>radius_m ** 3\<close> and then \<^verbatim>\<open>velocity_ms ** 2\<close> raise \<^verbatim>\<open>OverflowError\<close>
  when the base is a finite float and the power is out of range.
\<close>

definition calculate_impact_energy :: "real \<Rightarrow> real \<Rightarrow> real \<Rightarrow> py_exception + real" where
  "calculate_impact_energy diameter_km velocity_kms density_kg_m3 =
     (let radius_m = (diameter_km * 1000) / 2
      in if in_float_range (diameter_km * 1000) \<and> \<not> in_float_range (radius_m ^ 3)
         then Inl (PyException ''OverflowError'')
         else
          (let volume_m3 = (4 / 3) * pi * (radius_m ^ 3);
               mass_kg = volume_m3 * density_kg_m3;
               velocity_ms = velocity_kms * 1000
           in if in_float_range velocity_ms \<and> \<not> in_float_range (velocity_ms ^ 2)
              then Inl (PyException ''OverflowError'')
              else
               (let energy_joules = (5 / 10) * mass_kg * (velocity_ms ^ 2);
                    energy_megatons = energy_joules / 4184000000000000
                in Inr energy_megatons)))"

subsection \<open>Batch calculation\<close>





subsection \<open>A polynomial for the sine\<close>

text \<open>
  The Taylor polynomial of degree 13 of the sine at 0. It is used only to bound \<open>pi\<close>, for
  the numerical value of the impact energy.
\<close>

definition sin_poly :: "real \<Rightarrow> real" where
  "sin_poly x = x - x ^ 3 / 6 + x ^ 5 / 120 - x ^ 7 / 5040 + x ^ 9 / 362880
      - x ^ 11 / 39916800 + x ^ 13 / 6227020800"

section \<open>Auxiliary facts\<close>

subsection \<open>Rounding\<close>

lemma round_half_even_cases:
  "round_half_even x = \<lfloor>x\<rfloor> \<or> (round_half_even x = \<lfloor>x\<rfloor> + 1 \<and> 1 / 2 \<le> x - of_int \<lfloor>x\<rfloor>)"
  unfolding round_half_even_def Let_def by auto

lemma round_half_even_le:
  assumes "x \<le> of_int k"
  shows "round_half_even x \<le> k"
proof -
  have fl: "\<lfloor>x\<rfloor> \<le> k" using assms by (simp add: floor_le_iff)
  consider "round_half_even x = \<lfloor>x\<rfloor>"
    | "round_half_even x = \<lfloor>x\<rfloor> + 1" "1 / 2 \<le> x - of_int \<lfloor>x\<rfloor>"
    using round_half_even_cases [of x] by blast
  then show ?thesis
  proof cases
    case 1
    then show ?thesis using fl by simp
  next
    case 2
    then have "of_int \<lfloor>x\<rfloor> < x" by linarith
    with assms have "real_of_int \<lfloor>x\<rfloor> < of_int k" by linarith
    then have "\<lfloor>x\<rfloor> < k" by simp
    with 2 show ?thesis by simp
  qed
qed

lemma round_half_even_ge:
  assumes "of_int k \<le> x"
  shows "k \<le> round_half_even x"
proof -
  have "k \<le> \<lfloor>x\<rfloor>" using assms by (simp add: le_floor_iff)
  then show ?thesis using round_half_even_cases [of x] by auto
qed

lemma round_half_even_of_int: "round_half_even (of_int k) = k"
  unfolding round_half_even_def Let_def by simp

lemma py_round_bounds:
  assumes "of_int a / 10 ^ n \<le> x" and "x \<le> of_int b / 10 ^ n"
  shows "of_int a / 10 ^ n \<le> py_round x n \<and> py_round x n \<le> of_int b / 10 ^ n"
proof -
  have p: "(0::real) < 10 ^ n" by simp
  have "of_int a \<le> x * 10 ^ n" using assms(1) p by (simp add: pos_divide_le_eq)
  then have 1: "a \<le> round_half_even (x * 10 ^ n)" by (rule round_half_even_ge)
  have "x * 10 ^ n \<le> of_int b" using assms(2) p by (simp add: pos_le_divide_eq)
  then have 2: "round_half_even (x * 10 ^ n) \<le> b" by (rule round_half_even_le)
  show ?thesis unfolding py_round_def using 1 2 p
    by (simp add: divide_le_cancel)
qed

lemma py_round_exact: "py_round (of_int k / 10 ^ n) n = of_int k / 10 ^ n"
  unfolding py_round_def by (simp add: round_half_even_of_int)

lemma py_round_int: "py_round (of_int k) n = of_int k"
  using py_round_exact [of "k * 10 ^ n" n] by simp

lemma py_round_score: "0 \<le> x \<Longrightarrow> x \<le> 100 \<Longrightarrow> 0 \<le> py_round x 1 \<and> py_round x 1 \<le> 100"
  using py_round_bounds [of 0 1 x 1000] by simp

lemma py_round_confidence:
  "1 / 10 \<le> x \<Longrightarrow> x \<le> 1 \<Longrightarrow> 1 / 10 \<le> py_round x 2 \<and> py_round x 2 \<le> 1"
  using py_round_bounds [of 10 2 x 100] by simp

subsection \<open>Bounds of \<open>pi\<close>\<close>

lemma sum_lessThan_15:
  fixes f :: "nat \<Rightarrow> real"
  shows "(\<Sum>m<15. f m) = f 0 + f 1 + f 2 + f 3 + f 4 + f 5 + f 6 + f 7 + f 8 + f 9 + f 10
     + f 11 + f 12 + f 13 + f 14"
  by (simp add: eval_nat_numeral lessThan_Suc)

lemma sin_coeff_values:
  "sin_coeff 0 = 0" "sin_coeff 1 = 1" "sin_coeff 2 = 0" "sin_coeff 3 = - 1 / 6"
  "sin_coeff 4 = 0" "sin_coeff 5 = 1 / 120" "sin_coeff 6 = 0" "sin_coeff 7 = - 1 / 5040"
  "sin_coeff 8 = 0" "sin_coeff 9 = 1 / 362880" "sin_coeff 10 = 0"
  "sin_coeff 11 = - 1 / 39916800" "sin_coeff 12 = 0" "sin_coeff 13 = 1 / 6227020800"
  "sin_coeff 14 = 0" "sin_coeff (Suc 0) = 1"
  by (simp_all add: sin_coeff_def fact_numeral)

lemma fact_15: "fact 15 = (1307674368000 :: real)"
  by (simp add: fact_numeral)

lemma sin_sum_poly: "(\<Sum>m<15. sin_coeff m * x ^ m) = sin_poly x"
proof -
  have "(\<Sum>m<15. sin_coeff m * x ^ m) =
      sin_coeff 0 * x ^ 0 + sin_coeff 1 * x ^ 1 + sin_coeff 2 * x ^ 2 + sin_coeff 3 * x ^ 3
    + sin_coeff 4 * x ^ 4 + sin_coeff 5 * x ^ 5 + sin_coeff 6 * x ^ 6 + sin_coeff 7 * x ^ 7
    + sin_coeff 8 * x ^ 8 + sin_coeff 9 * x ^ 9 + sin_coeff 10 * x ^ 10
    + sin_coeff 11 * x ^ 11 + sin_coeff 12 * x ^ 12 + sin_coeff 13 * x ^ 13
    + sin_coeff 14 * x ^ 14"
    by (rule sum_lessThan_15)
  also have "\<dots> = sin_poly x"
    by (simp add: sin_coeff_values sin_poly_def)
  finally show ?thesis .
qed

lemma sin_poly_bound: "\<bar>sin x - sin_poly x\<bar> \<le> \<bar>x\<bar> ^ 15 / 1307674368000"
  using Maclaurin_sin_bound [of x 15]
  by (simp only: sin_sum_poly fact_15 divide_inverse mult.commute)

lemma sin_3141_pos: "0 < sin (3141 / 1000 :: real)"
proof -
  have "0 < sin_poly (3141 / 1000) - \<bar>3141 / 1000 :: real\<bar> ^ 15 / 1307674368000"
    unfolding sin_poly_def by (simp add: power_divide)
  then show ?thesis using sin_poly_bound [of "3141 / 1000"] by linarith
qed

lemma sin_3142_neg: "sin (3142 / 1000 :: real) < 0"
proof -
  have "sin_poly (3142 / 1000) + \<bar>3142 / 1000 :: real\<bar> ^ 15 / 1307674368000 < 0"
    unfolding sin_poly_def by (simp add: power_divide)
  then show ?thesis using sin_poly_bound [of "3142 / 1000"] by linarith
qed

lemma pi_lower: "3141 / 1000 < pi"
proof (rule ccontr)
  assume "\<not> 3141 / 1000 < pi"
  then have "pi \<le> 3141 / 1000" by simp
  moreover have "3141 / 1000 < 2 * pi" using pi_ge_two by linarith
  ultimately have "sin (3141 / 1000 :: real) \<le> 0" by (rule sin_le_zero)
  then show False using sin_3141_pos by linarith
qed

lemma pi_upper: "pi < 3142 / 1000"
proof (rule ccontr)
  assume "\<not> pi < 3142 / 1000"
  then have "3142 / 1000 \<le> pi" by simp
  then have "0 \<le> sin (3142 / 1000 :: real)" by (intro sin_ge_zero) simp_all
  then show False using sin_3142_neg by linarith
qed

subsection \<open>The decorator and the scorers\<close>

lemma handle_exceptions_Inr: "handle_exceptions r f (Inr v) = Inr v"
  by (simp add: handle_exceptions_def)


lemma handle_exceptions_NEOTracker:
  "handle_exceptions r f (Inl (NEOTracker c msg details orig)) = Inl (NEOTracker c msg details orig)"
  by (simp add: handle_exceptions_def)



lemma calculate_time_score_total:
  "ad = None \<or> tz_aware (the ad) \<Longrightarrow> \<exists>ts tta. calculate_time_score th now ad = Inr (ts, tta)"
  by (auto simp: calculate_time_score_def Let_def split: option.splits)

lemma calculate_risk_body_fields:
  fixes m v :: "real option" and h s :: bool
  assumes size: "calculate_size_score th d mag = Inr ss"
    and time: "calculate_time_score th now ad = Inr (ts, tta)"
  defines "fs \<equiv> [(''size'', ss), (''distance'', calculate_distance_score th m),
                 (''velocity'', calculate_velocity_score th v), (''time_to_approach'', ts),
                 (''nasa_classification'', calculate_nasa_classification_score h s)]"
  defines "am \<equiv> apply_modifiers (sum_list (map snd fs)) fs d m"
  shows "calculate_risk_body th now d m v ad h s mag af =
     Inr \<lparr> overall_score = py_round (fst am) 1,
           risk_level = determine_risk_level (fst am),
           confidence = py_round (snd am) 2,
           factor_scores = map (\<lambda>(k, v). (k, py_round v 1)) fs,
           primary_concerns = fst (analyze_qualitative_factors fs d m v h tta),
           risk_factors = fst (snd (analyze_qualitative_factors fs d m v h tta)),
           mitigating_factors = snd (snd (analyze_qualitative_factors fs d m v h tta)),
           time_to_approach_days = tta,
           approach_decade = determine_approach_decade ad,
           monitoring_priority =
             fst (determine_monitoring_recommendations (fst am) (determine_risk_level (fst am)) tta),
           observation_frequency =
             snd (determine_monitoring_recommendations (fst am) (determine_risk_level (fst am)) tta) \<rparr>"
  unfolding calculate_risk_body_def fs_def am_def
  by (simp add: size time Let_def case_prod_beta)


lemma calculate_risk_body_Inr:
  assumes "calculate_risk_body th now d m v ad h s mag af = Inr a"
  shows "\<exists>ss ts tta. calculate_size_score th d mag = Inr ss
           \<and> calculate_time_score th now ad = Inr (ts, tta)"
  using assms unfolding calculate_risk_body_def
  by (auto simp: Let_def split: sum.splits)

lemma calculate_risk_Inr_iff:
  "calculate_risk th now d m v ad h s mag af = Inr a \<longleftrightarrow>
   calculate_risk_body th now d m v ad h s mag af = Inr a"
  unfolding calculate_risk_def
  by (cases "calculate_risk_body th now d m v ad h s mag af")
     (auto simp: handle_exceptions_def split: option.splits)

lemma truthy_and_simps:
  "truthy_and None P = False" "truthy_and (Some x) P = (x \<noteq> 0 \<and> P x)"
  by (simp_all add: truthy_and_def)

lemma apply_modifiers_fst:
  "fst (apply_modifiers b fs d m) =
     max 0 (min 100 (if truthy_and d (\<lambda>d. 5 / 10 < d) \<and> truthy_and m (\<lambda>m. m < 1000000)
                     then b + 5 else b))"
  unfolding apply_modifiers_def Let_def fst_conv
  by (cases d; cases m) (simp_all add: truthy_and_simps)

lemma apply_modifiers_snd:
  "snd (apply_modifiers b fs d m) =
     max (1 / 10) (1 - ((if d = None then 3 / 10 else 0) + (if m = None then 2 / 10 else 0)))"
  unfolding apply_modifiers_def Let_def snd_conv
  by (cases d; cases m) simp_all

lemma apply_modifiers_bounds:
  "0 \<le> fst (apply_modifiers b fs d m) \<and> fst (apply_modifiers b fs d m) \<le> 100
   \<and> 1 / 10 \<le> snd (apply_modifiers b fs d m) \<and> snd (apply_modifiers b fs d m) \<le> 1"
proof -
  have "0 \<le> fst (apply_modifiers b fs d m)"
    unfolding apply_modifiers_fst by (rule max.cobounded1)
  moreover have "fst (apply_modifiers b fs d m) \<le> 100"
    unfolding apply_modifiers_fst by (simp only: max.bounded_iff min.cobounded1) simp
  moreover have "1 / 10 \<le> snd (apply_modifiers b fs d m)"
    unfolding apply_modifiers_snd by (rule max.cobounded1)
  moreover have "snd (apply_modifiers b fs d m) \<le> 1"
    unfolding apply_modifiers_snd by (cases d; cases m) simp_all
  ultimately show ?thesis by blast
qed


lemma py_round_simps:
  "py_round 0 n = 0" "py_round 1 n = 1" "py_round (numeral k) n = numeral k"
  using py_round_int [of 0 n] py_round_int [of 1 n] py_round_int [of "numeral k" n] by simp_all

lemma py_round_half: "py_round (1 / 2) 2 = 1 / 2"
  using py_round_exact [of 50 2] by simp

lemma py_round_7_10: "py_round (7 / 10) 2 = 7 / 10"
  using py_round_exact [of 70 2] by simp

lemma py_round_8_10: "py_round (8 / 10) 2 = 8 / 10"
  using py_round_exact [of 80 2] by simp

lemma calculate_size_score_None: "calculate_size_score th None None = Inr 0"
  by (simp add: calculate_size_score_def)

lemma calculate_size_score_Some: "calculate_size_score th (Some d) mag = Inr (size_ladder th d)"
  by (simp add: calculate_size_score_def)

lemma calculate_time_score_None: "calculate_time_score th now None = Inr (0, None)"
  by (simp add: calculate_time_score_def)

lemma no_data_analysis:
  "calculate_risk th now None None None None False False None af =
     Inr \<lparr> overall_score = 0, risk_level = ''very_low'', confidence = 1 / 2,
           factor_scores = [(''size'', 0), (''distance'', 0), (''velocity'', 0),
                            (''time_to_approach'', 0), (''nasa_classification'', 0)],
           primary_concerns = [], risk_factors = [], mitigating_factors = [],
           time_to_approach_days = None, approach_decade = None,
           monitoring_priority = ''low'', observation_frequency = ''yearly'' \<rparr>"
  unfolding calculate_risk_def
    calculate_risk_body_fields [OF calculate_size_score_None calculate_time_score_None]
    handle_exceptions_Inr
  by (simp add: apply_modifiers_fst apply_modifiers_snd truthy_and_simps py_round_simps
      py_round_half calculate_distance_score_def calculate_velocity_score_def
      calculate_nasa_classification_score_def determine_risk_level_def
      analyze_qualitative_factors_def determine_monitoring_recommendations_def
      base_monitoring_def determine_approach_decade_def dict_get_def Let_def)

subsection \<open>Time to approach\<close>

lemma days_le_iff:
  "(real_of_int k / 1000000 / (24 * 3600) \<le> real_of_int n) \<longleftrightarrow> (k \<le> n * 86400000000)"
proof -
  have "real_of_int k / 1000000 / (24 * 3600) = real_of_int k / 86400000000" by simp
  moreover have "(real_of_int k / 86400000000 \<le> real_of_int n) \<longleftrightarrow>
      (real_of_int k \<le> real_of_int (n * 86400000000))"
    by (simp add: pos_divide_le_eq)
  ultimately show ?thesis by (simp only: of_int_le_iff)
qed

lemma days_less_iff:
  "(real_of_int k / 1000000 / (24 * 3600) < real_of_int n) \<longleftrightarrow> (k < n * 86400000000)"
proof -
  have "real_of_int k / 1000000 / (24 * 3600) = real_of_int k / 86400000000" by simp
  moreover have "(real_of_int k / 86400000000 < real_of_int n) \<longleftrightarrow>
      (real_of_int k < real_of_int (n * 86400000000))"
    by (simp add: pos_divide_less_eq)
  ultimately show ?thesis by (simp only: of_int_less_iff)
qed

lemma days_pos_iff:
  "(0 < real_of_int k / 1000000 / (24 * 3600)) \<longleftrightarrow> (0 < k)"
  by simp

lemma calculate_time_score_future:
  assumes "tz_aware ad" and "now \<le> micros ad"
  shows "calculate_time_score th now (Some ad) =
     Inr (let days_until = real_of_int (micros ad - now) / 1000000 / (24 * 3600)
          in if days_until \<le> time_critical th then 15
             else if days_until \<le> time_very_high th then 12
             else if days_until \<le> time_high th then 8
             else if days_until \<le> time_medium th then 4
             else 1,
          Some (real_of_int (micros ad - now) / 1000000 / (24 * 3600)))"
  using assms by (simp add: calculate_time_score_def Let_def)

lemma calculate_time_score_past:
  assumes "tz_aware ad" and "micros ad < now"
  shows "calculate_time_score th now (Some ad) =
     Inr (if (now - micros ad) div 86400000000 \<le> 30 then 8 else 2,
          Some (- real_of_int ((now - micros ad) div 86400000000)))"
  using assms by (simp add: calculate_time_score_def Let_def)

lemma calculate_time_score_naive:
  "\<not> tz_aware ad \<Longrightarrow> calculate_time_score th now (Some ad) = Inl (PyException ''TypeError'')"
  by (simp add: calculate_time_score_def)

lemma time_score_default_decade:
  assumes "tz_aware ad" and "365 * 86400000000 < micros ad - now"
    and "micros ad - now \<le> 3650 * 86400000000"
  shows "calculate_time_score default_thresholds now (Some ad) =
     Inr (4, Some (real_of_int (micros ad - now) / 1000000 / (24 * 3600)))"
proof -
  have le: "now \<le> micros ad" using assms(2) by simp
  have a: "\<not> real_of_int (micros ad - now) / 1000000 / (24 * 3600) \<le> real_of_int 7"
    unfolding days_le_iff using assms(2) by simp
  have b: "\<not> real_of_int (micros ad - now) / 1000000 / (24 * 3600) \<le> real_of_int 30"
    unfolding days_le_iff using assms(2) by simp
  have c: "\<not> real_of_int (micros ad - now) / 1000000 / (24 * 3600) \<le> real_of_int 365"
    unfolding days_le_iff using assms(2) by simp
  have d: "real_of_int (micros ad - now) / 1000000 / (24 * 3600) \<le> real_of_int 3650"
    unfolding days_le_iff using assms(3) by simp
  show ?thesis
    unfolding calculate_time_score_future [OF assms(1) le] Let_def
    using a b c d by (simp add: default_thresholds_def)
qed

subsection \<open>The two examples of the module\<close>

lemmas scorer_defs =
  size_ladder_def calculate_distance_score_def calculate_velocity_score_def
  calculate_nasa_classification_score_def default_thresholds_def

lemmas narrative_defs =
  determine_risk_level_def analyze_qualitative_factors_def
  determine_monitoring_recommendations_def base_monitoring_def dict_get_def

lemma apophis_analysis:
  assumes "tz_aware ad" and "365 * 86400000000 < micros ad - now"
    and "micros ad - now \<le> 3650 * 86400000000"
  shows "calculate_risk default_thresholds now (Some (37 / 100)) (Some 31000) (Some 23800)
           (Some ad) True False None af =
     Inr \<lparr> overall_score = 56, risk_level = ''high'', confidence = 1,
           factor_scores = [(''size'', 18), (''distance'', 25), (''velocity'', 4),
                            (''time_to_approach'', 4), (''nasa_classification'', 5)],
           primary_concerns = [concern_close],
           risk_factors = [factor_pha, factor_size, factor_proximity],
           mitigating_factors = [],
           time_to_approach_days = Some (real_of_int (micros ad - now) / 1000000 / (24 * 3600)),
           approach_decade = determine_approach_decade (Some ad),
           monitoring_priority = ''high'', observation_frequency = ''weekly'' \<rparr>"
proof -
  have pos: "\<not> real_of_int (micros ad - now) / 1000000 / (24 * 3600) < real_of_int 365"
    unfolding days_less_iff using assms(2) by simp
  have big: "\<not> real_of_int 3650 < real_of_int (micros ad - now) / 1000000 / (24 * 3600)"
    using assms(3) days_le_iff [of "micros ad - now" 3650] by simp
  show ?thesis
    unfolding calculate_risk_def
      calculate_risk_body_fields [OF calculate_size_score_Some time_score_default_decade [OF assms]]
      handle_exceptions_Inr
    using pos big
    by (simp add: apply_modifiers_fst apply_modifiers_snd truthy_and_simps py_round_simps
        scorer_defs narrative_defs Let_def)
qed

lemma small_analysis:
  "calculate_risk default_thresholds now (Some (1 / 100)) (Some 5000000) (Some 15000)
           None False False None af =
     Inr \<lparr> overall_score = 20, risk_level = ''low'', confidence = 1,
           factor_scores = [(''size'', 6), (''distance'', 10), (''velocity'', 4),
                            (''time_to_approach'', 0), (''nasa_classification'', 0)],
           primary_concerns = [], risk_factors = [], mitigating_factors = [],
           time_to_approach_days = None, approach_decade = None,
           monitoring_priority = ''low'', observation_frequency = ''yearly'' \<rparr>"
  unfolding calculate_risk_def
    calculate_risk_body_fields [OF calculate_size_score_Some calculate_time_score_None]
    handle_exceptions_Inr
  by (simp add: apply_modifiers_fst apply_modifiers_snd truthy_and_simps py_round_simps
      scorer_defs narrative_defs determine_approach_decade_def Let_def)

lemma decade_2029:
  "determine_approach_decade (Some \<lparr>tz_aware = True, year = 2029, micros = k\<rparr>) = Some ''2020s''"
  by (simp add: determine_approach_decade_def string_of_int_def string_of_nat.simps)

lemma narrative_distinct:
  "mitigating_small \<noteq> mitigating_distance" "mitigating_small \<noteq> mitigating_far_future"
  "concern_close \<noteq> concern_large" "concern_close \<noteq> concern_fast"
  "concern_close \<noteq> concern_imminent"
  by (simp_all add: mitigating_small_def mitigating_distance_def mitigating_far_future_def
      concern_close_def concern_large_def concern_fast_def concern_imminent_def)

lemma mitigating_small_iff:
  "mitigating_small \<in> set (snd (snd (analyze_qualitative_factors fs d m v h tta)))
     \<longleftrightarrow> truthy_and d (\<lambda>x. x < 1 / 100)"
  by (simp add: analyze_qualitative_factors_def Let_def narrative_distinct)

lemma concern_close_iff:
  "concern_close \<in> set (fst (analyze_qualitative_factors fs d m v h tta))
     \<longleftrightarrow> truthy_and m (\<lambda>x. x < 400000)"
  by (simp add: analyze_qualitative_factors_def Let_def narrative_distinct)

subsection \<open>Fields of a returned analysis\<close>

lemma py_round_4_5: "py_round (4 / 5) 2 = 4 / 5"
  using py_round_exact [of 80 2] by simp

lemma calculate_risk_InrD:
  assumes "calculate_risk th now d m v ad h s mag af = Inr a"
  shows "\<exists>ss ts tta. calculate_size_score th d mag = Inr ss
           \<and> calculate_time_score th now ad = Inr (ts, tta)
           \<and> calculate_risk_body th now d m v ad h s mag af = Inr a"
  using assms calculate_risk_body_Inr [of th now d m v ad h s mag af a]
  by (simp add: calculate_risk_Inr_iff)

lemma calculate_risk_mitigating:
  assumes "calculate_risk th now d m v ad h s mag af = Inr a"
  shows "mitigating_small \<in> set (mitigating_factors a) \<longleftrightarrow> truthy_and d (\<lambda>x. x < 1 / 100)"
proof -
  from calculate_risk_InrD [OF assms] obtain ss ts tta where
    size: "calculate_size_score th d mag = Inr ss" and
    time: "calculate_time_score th now ad = Inr (ts, tta)" and
    body: "calculate_risk_body th now d m v ad h s mag af = Inr a" by blast
  from body calculate_risk_body_fields [OF size time, of m v h s af]
  obtain fs where "mitigating_factors a = snd (snd (analyze_qualitative_factors fs d m v h tta))"
    by auto
  then show ?thesis by (simp only: mitigating_small_iff)
qed

lemma calculate_risk_concern_close:
  assumes "calculate_risk th now d m v ad h s mag af = Inr a"
  shows "concern_close \<in> set (primary_concerns a) \<longleftrightarrow> truthy_and m (\<lambda>x. x < 400000)"
proof -
  from calculate_risk_InrD [OF assms] obtain ss ts tta where
    size: "calculate_size_score th d mag = Inr ss" and
    time: "calculate_time_score th now ad = Inr (ts, tta)" and
    body: "calculate_risk_body th now d m v ad h s mag af = Inr a" by blast
  from body calculate_risk_body_fields [OF size time, of m v h s af]
  obtain fs where "primary_concerns a = fst (analyze_qualitative_factors fs d m v h tta)"
    by auto
  then show ?thesis by (simp only: concern_close_iff)
qed

lemma calculate_risk_confidence:
  assumes "calculate_risk th now d m v ad h s mag af = Inr a"
  shows "confidence a =
    (if d = None then (if m = None then 1 / 2 else 7 / 10)
     else (if m = None then 8 / 10 else 1))"
proof -
  from calculate_risk_InrD [OF assms] obtain ss ts tta where
    size: "calculate_size_score th d mag = Inr ss" and
    time: "calculate_time_score th now ad = Inr (ts, tta)" and
    body: "calculate_risk_body th now d m v ad h s mag af = Inr a" by blast
  from body calculate_risk_body_fields [OF size time, of m v h s af]
  obtain b fs where "confidence a = py_round (snd (apply_modifiers b fs d m)) 2"
    by auto
  then show ?thesis
    unfolding apply_modifiers_snd
    by (cases d; cases m)
       (simp_all add: py_round_simps py_round_half py_round_7_10 py_round_4_5)
qed

lemma tiny_analysis:
  "calculate_risk default_thresholds now (Some (5 / 1000)) (Some 5000000) (Some 15000)
           None False False None af =
     Inr \<lparr> overall_score = 16, risk_level = ''low'', confidence = 1,
           factor_scores = [(''size'', 2), (''distance'', 10), (''velocity'', 4),
                            (''time_to_approach'', 0), (''nasa_classification'', 0)],
           primary_concerns = [], risk_factors = [], mitigating_factors = [mitigating_small],
           time_to_approach_days = None, approach_decade = None,
           monitoring_priority = ''low'', observation_frequency = ''yearly'' \<rparr>"
  unfolding calculate_risk_def
    calculate_risk_body_fields [OF calculate_size_score_Some calculate_time_score_None]
    handle_exceptions_Inr
  by (simp add: apply_modifiers_fst apply_modifiers_snd truthy_and_simps py_round_simps
      scorer_defs narrative_defs determine_approach_decade_def Let_def)


subsection \<open>Diameter from magnitude; zero distance\<close>

lemma sqrt_quarter: "sqrt (25 / 100) = 1 / 2" "sqrt (1 / 4) = 1 / 2"
  by (simp_all add: real_sqrt_divide)

lemma float_max_ge_1: "1 \<le> float_max"
proof -
  have "(1::real) \<le> 2 ^ 53 - 1" by simp
  moreover have "(1::real) \<le> 2 ^ 971" by (rule one_le_power) simp
  ultimately have "(1::real) * 1 \<le> (2 ^ 53 - 1) * 2 ^ 971"
    by (intro mult_mono) simp_all
  then show ?thesis by (simp add: float_max_def)
qed

lemma estimate_diameter_nonneg_magnitude:
  assumes "0 \<le> H"
  shows "estimate_diameter_from_magnitude H = Inr (2658 * 10 powr (- (2 / 10) * H))"
proof -
  have "- (2 / 10) * H \<le> 0" using assms by simp
  then have "(10::real) powr (- (2 / 10) * H) \<le> 10 powr 0"
    by (intro powr_mono) simp_all
  then have "(10::real) powr (- (2 / 10) * H) \<le> float_max"
    using float_max_ge_1 by simp
  then have "\<not> float_max < 10 powr (- (2 / 10) * H)" by simp
  then show ?thesis
    unfolding estimate_diameter_from_magnitude_def Let_def
    by (simp add: sqrt_quarter)
qed

lemma estimate_diameter_20: "estimate_diameter_from_magnitude 20 = Inr (2658 / 10000)"
proof -
  have "(10::real) powr (- (2 / 10) * 20) = 10 powr (- 4)" by simp
  also have "\<dots> = 1 / 10 powr 4" by (simp add: powr_minus_divide)
  also have "\<dots> = 1 / 10000" by simp
  finally show ?thesis
    using estimate_diameter_nonneg_magnitude [of 20] by simp
qed

lemma calculate_size_score_magnitude_20:
  "calculate_size_score default_thresholds None (Some 20) = Inr 18"
  by (simp add: calculate_size_score_def estimate_diameter_20 scorer_defs)

lemma magnitude_only_analysis:
  "calculate_risk default_thresholds now None (Some 31000) None None False False (Some 20) af =
     Inr \<lparr> overall_score = 43, risk_level = ''medium'', confidence = 7 / 10,
           factor_scores = [(''size'', 18), (''distance'', 25), (''velocity'', 0),
                            (''time_to_approach'', 0), (''nasa_classification'', 0)],
           primary_concerns = [concern_close],
           risk_factors = [factor_size, factor_proximity], mitigating_factors = [],
           time_to_approach_days = None, approach_decade = None,
           monitoring_priority = ''medium'', observation_frequency = ''monthly'' \<rparr>"
  unfolding calculate_risk_def
    calculate_risk_body_fields [OF calculate_size_score_magnitude_20 calculate_time_score_None]
    handle_exceptions_Inr
  by (simp add: apply_modifiers_fst apply_modifiers_snd truthy_and_simps py_round_simps
      py_round_7_10 scorer_defs narrative_defs determine_approach_decade_def Let_def)

lemma zero_distance_analysis:
  "calculate_risk default_thresholds now (Some (6 / 10)) (Some 0) None None False False None af =
     Inr \<lparr> overall_score = 43, risk_level = ''medium'', confidence = 1,
           factor_scores = [(''size'', 18), (''distance'', 25), (''velocity'', 0),
                            (''time_to_approach'', 0), (''nasa_classification'', 0)],
           primary_concerns = [],
           risk_factors = [factor_size, factor_proximity], mitigating_factors = [],
           time_to_approach_days = None, approach_decade = None,
           monitoring_priority = ''medium'', observation_frequency = ''monthly'' \<rparr>"
  unfolding calculate_risk_def
    calculate_risk_body_fields [OF calculate_size_score_Some calculate_time_score_None]
    handle_exceptions_Inr
  by (simp add: apply_modifiers_fst apply_modifiers_snd truthy_and_simps py_round_simps
      scorer_defs narrative_defs determine_approach_decade_def Let_def)

lemma one_km_distance_analysis:
  "calculate_risk default_thresholds now (Some (6 / 10)) (Some 1) None None False False None af =
     Inr \<lparr> overall_score = 48, risk_level = ''medium'', confidence = 1,
           factor_scores = [(''size'', 18), (''distance'', 25), (''velocity'', 0),
                            (''time_to_approach'', 0), (''nasa_classification'', 0)],
           primary_concerns = [concern_close],
           risk_factors = [factor_size, factor_proximity], mitigating_factors = [],
           time_to_approach_days = None, approach_decade = None,
           monitoring_priority = ''medium'', observation_frequency = ''monthly'' \<rparr>"
  unfolding calculate_risk_def
    calculate_risk_body_fields [OF calculate_size_score_Some calculate_time_score_None]
    handle_exceptions_Inr
  by (simp add: apply_modifiers_fst apply_modifiers_snd truthy_and_simps py_round_simps
      scorer_defs narrative_defs determine_approach_decade_def Let_def)

lemma calculate_risk_size_score_missing:
  assumes "calculate_risk th now None m v ad h s None af = Inr a"
  shows "dict_get (factor_scores a) ''size'' 0 = 0"
proof -
  from calculate_risk_InrD [OF assms] obtain ts tta where
    time: "calculate_time_score th now ad = Inr (ts, tta)" and
    body: "calculate_risk_body th now None m v ad h s None af = Inr a" by blast
  from body calculate_risk_body_fields [OF calculate_size_score_None time, of m v h s af]
  show ?thesis by (auto simp: dict_get_def py_round_simps)
qed

subsection \<open>Failures and the batch loop\<close>






subsection \<open>Monitoring\<close>

lemma monitoring_override:
  "0 < t \<Longrightarrow> t < 30 \<Longrightarrow>
   determine_monitoring_recommendations score level (Some t) =
     (if fst (base_monitoring level) = ''low'' then ''medium'' else fst (base_monitoring level),
      ''daily'')"
  by (simp add: determine_monitoring_recommendations_def truthy_and_simps case_prod_beta)

lemma monitoring_no_override:
  "\<not> (0 < t \<and> t < 30) \<Longrightarrow>
   determine_monitoring_recommendations score level (Some t) = base_monitoring level"
  by (auto simp: determine_monitoring_recommendations_def truthy_and_simps case_prod_beta)

lemma calculate_risk_monitoring:
  assumes "calculate_risk th now d m v ad h s mag af = Inr a"
  shows "\<exists>score ts. calculate_time_score th now ad = Inr (ts, time_to_approach_days a)
     \<and> (monitoring_priority a, observation_frequency a) =
         determine_monitoring_recommendations score (risk_level a) (time_to_approach_days a)"
proof -
  from calculate_risk_InrD [OF assms] obtain ss ts tta where
    size: "calculate_size_score th d mag = Inr ss" and
    time: "calculate_time_score th now ad = Inr (ts, tta)" and
    body: "calculate_risk_body th now d m v ad h s mag af = Inr a" by blast
  from body calculate_risk_body_fields [OF size time, of m v h s af]
  obtain score where
    "time_to_approach_days a = tta"
    "risk_level a = determine_risk_level score"
    "monitoring_priority a =
       fst (determine_monitoring_recommendations score (determine_risk_level score) tta)"
    "observation_frequency a =
       snd (determine_monitoring_recommendations score (determine_risk_level score) tta)"
    by auto
  with time show ?thesis by auto
qed

lemma calculate_risk_future_days:
  assumes "calculate_risk th now d m v (Some ad) h s mag af = Inr a" and "now \<le> micros ad"
  shows "time_to_approach_days a = Some (real_of_int (micros ad - now) / 1000000 / (24 * 3600))"
proof -
  from calculate_risk_monitoring [OF assms(1)] obtain ts where
    time: "calculate_time_score th now (Some ad) = Inr (ts, time_to_approach_days a)" by blast
  have aware: "tz_aware ad"
    using time calculate_time_score_naive [of ad th now] by (cases "tz_aware ad") auto
  show ?thesis
    using time unfolding calculate_time_score_future [OF aware assms(2)] by simp
qed

lemma date_only_time_score:
  "calculate_time_score default_thresholds 0
     (Some \<lparr>tz_aware = True, year = 2026, micros = 2505600000000\<rparr>) = Inr (12, Some 29)"
  "calculate_time_score default_thresholds 0
     (Some \<lparr>tz_aware = True, year = 2026, micros = 2592000000000\<rparr>) = Inr (12, Some 30)"
  by (simp_all add: calculate_time_score_def default_thresholds_def)

lemma decade_2026:
  "determine_approach_decade (Some \<lparr>tz_aware = True, year = 2026, micros = k\<rparr>) = Some ''2020s''"
  by (simp add: determine_approach_decade_def string_of_int_def string_of_nat.simps)

lemma approach_in_29_days_analysis:
  "calculate_risk default_thresholds 0 None None None
     (Some \<lparr>tz_aware = True, year = 2026, micros = 2505600000000\<rparr>) False False None af =
     Inr \<lparr> overall_score = 12, risk_level = ''low'', confidence = 1 / 2,
           factor_scores = [(''size'', 0), (''distance'', 0), (''velocity'', 0),
                            (''time_to_approach'', 12), (''nasa_classification'', 0)],
           primary_concerns = [concern_imminent], risk_factors = [], mitigating_factors = [],
           time_to_approach_days = Some 29, approach_decade = Some ''2020s'',
           monitoring_priority = ''medium'', observation_frequency = ''daily'' \<rparr>"
  unfolding calculate_risk_def
    calculate_risk_body_fields [OF calculate_size_score_None date_only_time_score(1)]
    handle_exceptions_Inr
  by (simp add: apply_modifiers_fst apply_modifiers_snd truthy_and_simps py_round_simps
      py_round_half scorer_defs narrative_defs decade_2026 Let_def)

lemma approach_in_30_days_analysis:
  "calculate_risk default_thresholds 0 None None None
     (Some \<lparr>tz_aware = True, year = 2026, micros = 2592000000000\<rparr>) False False None af =
     Inr \<lparr> overall_score = 12, risk_level = ''low'', confidence = 1 / 2,
           factor_scores = [(''size'', 0), (''distance'', 0), (''velocity'', 0),
                            (''time_to_approach'', 12), (''nasa_classification'', 0)],
           primary_concerns = [concern_imminent], risk_factors = [], mitigating_factors = [],
           time_to_approach_days = Some 30, approach_decade = Some ''2020s'',
           monitoring_priority = ''low'', observation_frequency = ''yearly'' \<rparr>"
  unfolding calculate_risk_def
    calculate_risk_body_fields [OF calculate_size_score_None date_only_time_score(2)]
    handle_exceptions_Inr
  by (simp add: apply_modifiers_fst apply_modifiers_snd truthy_and_simps py_round_simps
      py_round_half scorer_defs narrative_defs decade_2026 Let_def)

subsection \<open>Whole-number scores\<close>

lemma py_round_Ints: "x \<in> \<int> \<Longrightarrow> py_round x n = x"
  by (auto elim!: Ints_cases simp: py_round_int)

lemma size_ladder_Ints: "size_ladder th d \<in> \<int>"
  by (simp add: size_ladder_def)

lemma calculate_size_score_Ints: "calculate_size_score th d mag = Inr ss \<Longrightarrow> ss \<in> \<int>"
  by (auto simp: calculate_size_score_def size_ladder_Ints split: option.splits sum.splits)

lemma calculate_distance_score_Ints: "calculate_distance_score th m \<in> \<int>"
  by (simp add: calculate_distance_score_def split: option.splits)

lemma calculate_velocity_score_Ints: "calculate_velocity_score th v \<in> \<int>"
  by (simp add: calculate_velocity_score_def split: option.splits)

lemma calculate_time_score_Ints: "calculate_time_score th now ad = Inr (ts, tta) \<Longrightarrow> ts \<in> \<int>"
  by (auto simp: calculate_time_score_def Let_def split: option.splits if_splits)

lemma calculate_nasa_classification_score_Ints: "calculate_nasa_classification_score h s \<in> \<int>"
  by (cases h; cases s) (simp_all add: calculate_nasa_classification_score_def)

lemma clamp_Ints: "x \<in> \<int> \<Longrightarrow> max 0 (min 100 x) \<in> \<int>"
  by (simp add: max_def min_def)

lemma calculate_risk_scores:
  assumes "calculate_risk th now d m v ad h s mag af = Inr a"
  shows "\<exists>ss ts tta. calculate_size_score th d mag = Inr ss
     \<and> calculate_time_score th now ad = Inr (ts, tta)
     \<and> factor_scores a =
          [(''size'', ss), (''distance'', calculate_distance_score th m),
           (''velocity'', calculate_velocity_score th v), (''time_to_approach'', ts),
           (''nasa_classification'', calculate_nasa_classification_score h s)]
     \<and> overall_score a =
          max 0 (min 100
            (if truthy_and d (\<lambda>d. 5 / 10 < d) \<and> truthy_and m (\<lambda>m. m < 1000000)
             then sum_list (map snd (factor_scores a)) + 5
             else sum_list (map snd (factor_scores a))))"
proof -
  from calculate_risk_InrD [OF assms] obtain ss ts tta where
    size: "calculate_size_score th d mag = Inr ss" and
    time: "calculate_time_score th now ad = Inr (ts, tta)" and
    body: "calculate_risk_body th now d m v ad h s mag af = Inr a" by blast
  let ?fs = "[(''size'', ss), (''distance'', calculate_distance_score th m),
           (''velocity'', calculate_velocity_score th v), (''time_to_approach'', ts),
           (''nasa_classification'', calculate_nasa_classification_score h s)]"
  note ints = calculate_size_score_Ints [OF size] calculate_distance_score_Ints [of th m]
    calculate_velocity_score_Ints [of th v] calculate_time_score_Ints [OF time]
    calculate_nasa_classification_score_Ints [of h s]
  from body calculate_risk_body_fields [OF size time, of m v h s af]
  have f: "factor_scores a = map (\<lambda>(k, v). (k, py_round v 1)) ?fs"
    and o: "overall_score a = py_round (fst (apply_modifiers (sum_list (map snd ?fs)) ?fs d m)) 1"
    by auto
  have fs: "factor_scores a = ?fs"
    unfolding f using ints by (simp add: py_round_Ints)
  have sum_int: "sum_list (map snd ?fs) \<in> \<int>" using ints by simp
  have "fst (apply_modifiers (sum_list (map snd ?fs)) ?fs d m) \<in> \<int>"
    unfolding apply_modifiers_fst using sum_int by (auto intro!: clamp_Ints)
  then have "overall_score a = fst (apply_modifiers (sum_list (map snd ?fs)) ?fs d m)"
    unfolding o by (rule py_round_Ints)
  then have "overall_score a =
      fst (apply_modifiers (sum_list (map snd (factor_scores a))) (factor_scores a) d m)"
    by (simp only: fs)
  note o2 = this [unfolded apply_modifiers_fst]
  show ?thesis
    by (intro exI conjI) (rule size time fs o2)+
qed

lemma zero_zero_analysis:
  "calculate_risk default_thresholds now (Some 0) (Some 0) None None False False None af =
     Inr \<lparr> overall_score = 27, risk_level = ''low'', confidence = 1,
           factor_scores = [(''size'', 2), (''distance'', 25), (''velocity'', 0),
                            (''time_to_approach'', 0), (''nasa_classification'', 0)],
           primary_concerns = [],
           risk_factors = [factor_proximity], mitigating_factors = [],
           time_to_approach_days = None, approach_decade = None,
           monitoring_priority = ''low'', observation_frequency = ''yearly'' \<rparr>"
  unfolding calculate_risk_def
    calculate_risk_body_fields [OF calculate_size_score_Some calculate_time_score_None]
    handle_exceptions_Inr
  by (simp add: apply_modifiers_fst apply_modifiers_snd truthy_and_simps py_round_simps
      scorer_defs narrative_defs determine_approach_decade_def Let_def)

subsection \<open>When a calculation returns\<close>

lemma calculate_size_score_total:
  assumes "d \<noteq> None \<or> mag = None \<or> 0 \<le> the mag"
  shows "\<exists>ss. calculate_size_score th d mag = Inr ss"
proof (cases d)
  case (Some x)
  then show ?thesis by (simp add: calculate_size_score_Some)
next
  case None
  show ?thesis
  proof (cases mag)
    case None
    with \<open>d = None\<close> show ?thesis by (simp add: calculate_size_score_None)
  next
    case (Some H)
    with assms \<open>d = None\<close> have "0 \<le> H" by simp
    then show ?thesis
      using \<open>d = None\<close> Some
      by (simp add: calculate_size_score_def estimate_diameter_nonneg_magnitude)
  qed
qed

lemma calculate_risk_returns:
  assumes "d \<noteq> None \<or> mag = None \<or> 0 \<le> the mag"
    and "ad = None \<or> tz_aware (the ad)"
  shows "\<exists>a. calculate_risk th now d m v ad h s mag af = Inr a"
proof -
  from calculate_size_score_total [OF assms(1)] obtain ss where
    size: "calculate_size_score th d mag = Inr ss" by blast
  from calculate_time_score_total [OF assms(2)] obtain ts tta where
    time: "calculate_time_score th now ad = Inr (ts, tta)" by blast
  show ?thesis
    unfolding calculate_risk_def calculate_risk_body_fields [OF size time] handle_exceptions_Inr
    by blast
qed


subsection \<open>The float range\<close>

lemma float_max_large: "1000000000000000000000000000000 \<le> float_max"
proof -
  have "(1000000000000000000000000000000::real) \<le> 2 ^ 100" by simp
  also have "(2::real) ^ 100 \<le> 2 ^ 971" by (rule power_increasing) simp_all
  also have "(2::real) ^ 971 = 1 * 2 ^ 971" by simp
  also have "\<dots> \<le> (2 ^ 53 - 1) * 2 ^ 971"
    by (rule mult_right_mono) simp_all
  finally show ?thesis by (simp only: float_max_def)
qed

lemma in_float_range_small: "\<bar>x\<bar> \<le> 1000000000000000000000000000000 \<Longrightarrow> in_float_range x"
  unfolding in_float_range_def using float_max_large by linarith

section \<open>The claims\<close>

subsection \<open>Range of the score and of the confidence\<close>

text \<open>
  Claim C1. Whatever the arguments and the thresholds, an analysis that \<^verbatim>\<open>calculate_risk\<close>
  returns has its \<^verbatim>\<open>overall_score\<close> in [0, 100] and its \<^verbatim>\<open>confidence\<close> in [0.1, 1.0],
  after the rounding to one and to two decimals.
  It does return an analysis whenever the approach date, if given, is time-zone aware and
  the magnitude, if it is used for the diameter, is not negative.
\<close>

theorem C1_score_and_confidence_range:
  "(calculate_risk th now diameter_km miss_distance_km velocity_kmh approach_date
       is_potentially_hazardous is_sentry_object absolute_magnitude additional_factors
     = Inr analysis \<longrightarrow>
       0 \<le> overall_score analysis \<and> overall_score analysis \<le> 100
     \<and> 1 / 10 \<le> confidence analysis \<and> confidence analysis \<le> 1)
   \<and> ((diameter_km \<noteq> None \<or> absolute_magnitude = None \<or> 0 \<le> the absolute_magnitude)
        \<and> (approach_date = None \<or> tz_aware (the approach_date)) \<longrightarrow>
       (\<exists>a. calculate_risk th now diameter_km miss_distance_km velocity_kmh approach_date
              is_potentially_hazardous is_sentry_object absolute_magnitude additional_factors
            = Inr a))"
proof -
  have range: "0 \<le> overall_score analysis \<and> overall_score analysis \<le> 100
     \<and> 1 / 10 \<le> confidence analysis \<and> confidence analysis \<le> 1"
    if ret: "calculate_risk th now diameter_km miss_distance_km velocity_kmh approach_date
       is_potentially_hazardous is_sentry_object absolute_magnitude additional_factors
     = Inr analysis"
  proof -
    from calculate_risk_InrD [OF ret] obtain ss ts tta where
      size: "calculate_size_score th diameter_km absolute_magnitude = Inr ss" and
      time: "calculate_time_score th now approach_date = Inr (ts, tta)" and
      body: "calculate_risk_body th now diameter_km miss_distance_km velocity_kmh approach_date
         is_potentially_hazardous is_sentry_object absolute_magnitude additional_factors
         = Inr analysis"
      by blast
    note fields = calculate_risk_body_fields [OF size time, of miss_distance_km velocity_kmh
        is_potentially_hazardous is_sentry_object additional_factors]
    from body fields obtain b fs where
      os: "overall_score analysis =
             py_round (fst (apply_modifiers b fs diameter_km miss_distance_km)) 1"
      and cf: "confidence analysis =
             py_round (snd (apply_modifiers b fs diameter_km miss_distance_km)) 2"
      by auto
    show ?thesis
      unfolding os cf
      using apply_modifiers_bounds [of b fs diameter_km miss_distance_km]
        py_round_score py_round_confidence by blast
  qed
  show ?thesis using range calculate_risk_returns by blast
qed

theorem C1_score_and_confidence_range_witness:
  "calculate_risk default_thresholds 0 None None None None False False None [] =
     Inr \<lparr> overall_score = 0, risk_level = ''very_low'', confidence = 1 / 2,
           factor_scores = [(''size'', 0), (''distance'', 0), (''velocity'', 0),
                            (''time_to_approach'', 0), (''nasa_classification'', 0)],
           primary_concerns = [], risk_factors = [], mitigating_factors = [],
           time_to_approach_days = None, approach_decade = None,
           monitoring_priority = ''low'', observation_frequency = ''yearly'' \<rparr>
   \<and> (0::real) \<le> 0 \<and> (0::real) \<le> 100 \<and> (1::real) / 10 \<le> 1 / 2 \<and> (1::real) / 2 \<le> 1"
  using C1_score_and_confidence_range [THEN conjunct1, rule_format,
      OF no_data_analysis [of default_thresholds 0 "[]"]]
    no_data_analysis [of default_thresholds 0 "[]"]
  by simp

subsection \<open>The Apophis-like scenario\<close>

text \<open>
  Claim C2, as amended. With the default thresholds, a diameter of 0.37 km, a miss
  distance of 31000 km, a velocity of 23800 km/h, a time-zone aware approach date more than
  365 and at most 3650 days ahead, and the hazardous flag set, \<^verbatim>\<open>calculate_risk\<close> returns
  the factor scores size 18, distance 25, velocity 4, time to approach 4 and NASA
  classification 5, the overall score 56 and the level \<^verbatim>\<open>high\<close>. (The distance is below
  \<^verbatim>\<open>distance_critical\<close>, hence 25 and not 20; the velocity is below \<^verbatim>\<open>velocity_medium\<close>,
  hence 4 and not 8.)
\<close>

theorem C2_apophis_scenario:
  assumes "tz_aware approach_date"
    and "365 * 86400000000 < micros approach_date - now"
    and "micros approach_date - now \<le> 3650 * 86400000000"
  shows "\<exists>analysis.
     calculate_risk default_thresholds now (Some (37 / 100)) (Some 31000) (Some 23800)
       (Some approach_date) True False None [] = Inr analysis
   \<and> factor_scores analysis = [(''size'', 18), (''distance'', 25), (''velocity'', 4),
                                (''time_to_approach'', 4), (''nasa_classification'', 5)]
   \<and> overall_score analysis = 56
   \<and> risk_level analysis = ''high''"
  using apophis_analysis [OF assms, of "[]"] by simp

theorem C2_apophis_scenario_witness:
  "calculate_risk default_thresholds 1712966400000000 (Some (37 / 100)) (Some 31000)
     (Some 23800) (Some \<lparr>tz_aware = True, year = 2029, micros = 1870732800000000\<rparr>)
     True False None [] =
     Inr \<lparr> overall_score = 56, risk_level = ''high'', confidence = 1,
           factor_scores = [(''size'', 18), (''distance'', 25), (''velocity'', 4),
                            (''time_to_approach'', 4), (''nasa_classification'', 5)],
           primary_concerns = [concern_close],
           risk_factors = [factor_pha, factor_size, factor_proximity],
           mitigating_factors = [],
           time_to_approach_days = Some 1826,
           approach_decade = Some ''2020s'',
           monitoring_priority = ''high'', observation_frequency = ''weekly'' \<rparr>"
proof -
  let ?ad = "\<lparr>tz_aware = True, year = 2029, micros = 1870732800000000\<rparr>"
  have a: "tz_aware ?ad" by simp
  have b: "365 * 86400000000 < micros ?ad - 1712966400000000" by simp
  have c: "micros ?ad - 1712966400000000 \<le> 3650 * 86400000000" by simp
  from C2_apophis_scenario [OF a b c] apophis_analysis [OF a b c, of "[]"]
  show ?thesis by (simp add: decade_2029)
qed

text \<open>
  The claim as stated, with a distance score of 20 and a velocity score of 8, fails for the
  approach of 13 April 2029 seen from 13 April 2024.
\<close>

theorem C2_counterexample:
  "\<not> isl (calculate_risk default_thresholds 1712966400000000 (Some (37 / 100)) (Some 31000)
           (Some 23800) (Some \<lparr>tz_aware = True, year = 2029, micros = 1870732800000000\<rparr>)
           True False None [])
   \<and> dict_get (factor_scores (projr (calculate_risk default_thresholds 1712966400000000
         (Some (37 / 100)) (Some 31000) (Some 23800)
         (Some \<lparr>tz_aware = True, year = 2029, micros = 1870732800000000\<rparr>)
         True False None []))) ''distance'' 0 \<noteq> 20
   \<and> dict_get (factor_scores (projr (calculate_risk default_thresholds 1712966400000000
         (Some (37 / 100)) (Some 31000) (Some 23800)
         (Some \<lparr>tz_aware = True, year = 2029, micros = 1870732800000000\<rparr>)
         True False None []))) ''velocity'' 0 \<noteq> 8"
proof -
  let ?ad = "\<lparr>tz_aware = True, year = 2029, micros = 1870732800000000\<rparr>"
  have a: "tz_aware ?ad" by simp
  have b: "365 * 86400000000 < micros ?ad - 1712966400000000" by simp
  have c: "micros ?ad - 1712966400000000 \<le> 3650 * 86400000000" by simp
  show ?thesis
    unfolding apophis_analysis [OF a b c, of "[]"] by (simp add: dict_get_def)
qed

subsection \<open>The small, distant object\<close>

text \<open>
  Claim C3, as amended. With the default thresholds, a diameter of 0.01 km, a miss distance
  of 5,000,000 km, a velocity of 15,000 km/h, no approach date and both flags false,
  \<^verbatim>\<open>calculate_risk\<close> returns the factor scores size 6, distance 10, velocity 4, time 0 and
  NASA classification 0, hence the overall score 20 and the level \<^verbatim>\<open>low\<close>, with no
  mitigating factor: the diameter 0.01 itself does not bring the very-small-size entry.
  For every input, the very-small-size entry is among the mitigating factors only when
  the diameter is given and is strictly below 0.01.
\<close>

theorem C3_small_distant_object:
  "calculate_risk default_thresholds now (Some (1 / 100)) (Some 5000000) (Some 15000)
           None False False None [] =
     Inr \<lparr> overall_score = 20, risk_level = ''low'', confidence = 1,
           factor_scores = [(''size'', 6), (''distance'', 10), (''velocity'', 4),
                            (''time_to_approach'', 0), (''nasa_classification'', 0)],
           primary_concerns = [], risk_factors = [], mitigating_factors = [],
           time_to_approach_days = None, approach_decade = None,
           monitoring_priority = ''low'', observation_frequency = ''yearly'' \<rparr>
   \<and> (calculate_risk th now' diameter_km miss_distance_km velocity_kmh approach_date
           is_potentially_hazardous is_sentry_object absolute_magnitude additional_factors
         = Inr analysis
       \<and> mitigating_small \<in> set (mitigating_factors analysis) \<longrightarrow>
          (\<exists>x. diameter_km = Some x \<and> x < 1 / 100))"
proof -
  have "\<exists>x. diameter_km = Some x \<and> x < 1 / 100"
    if ret: "calculate_risk th now' diameter_km miss_distance_km velocity_kmh approach_date
           is_potentially_hazardous is_sentry_object absolute_magnitude additional_factors
         = Inr analysis"
      and entry: "mitigating_small \<in> set (mitigating_factors analysis)"
    using entry unfolding calculate_risk_mitigating [OF ret]
    by (cases diameter_km) (simp_all add: truthy_and_simps)
  then show ?thesis using small_analysis [of now "[]"] by blast
qed

theorem C3_small_distant_object_witness:
  "calculate_risk default_thresholds 0 (Some (5 / 1000)) (Some 5000000) (Some 15000)
           None False False None [] =
     Inr \<lparr> overall_score = 16, risk_level = ''low'', confidence = 1,
           factor_scores = [(''size'', 2), (''distance'', 10), (''velocity'', 4),
                            (''time_to_approach'', 0), (''nasa_classification'', 0)],
           primary_concerns = [], risk_factors = [], mitigating_factors = [mitigating_small],
           time_to_approach_days = None, approach_decade = None,
           monitoring_priority = ''low'', observation_frequency = ''yearly'' \<rparr>
   \<and> mitigating_small \<in> set [mitigating_small]
   \<and> (\<exists>x. Some (5 / 1000 :: real) = Some x \<and> x < 1 / 100)"
proof -
  note eq = tiny_analysis [of 0 "[]"]
  have entry: "mitigating_small \<in> set (mitigating_factors
     \<lparr> overall_score = 16, risk_level = ''low'', confidence = 1,
           factor_scores = [(''size'', 2), (''distance'', 10), (''velocity'', 4),
                            (''time_to_approach'', 0), (''nasa_classification'', 0)],
           primary_concerns = [], risk_factors = [], mitigating_factors = [mitigating_small],
           time_to_approach_days = None, approach_decade = None,
           monitoring_priority = ''low'', observation_frequency = ''yearly'' \<rparr>)"
    by simp
  from C3_small_distant_object [THEN conjunct2, rule_format, OF conjI, OF eq entry] eq
  show ?thesis by simp
qed

text \<open>The claim as stated, with a distance score of 5 and an overall score of 15, fails.\<close>

theorem C3_counterexample:
  "\<not> isl (calculate_risk default_thresholds 0 (Some (1 / 100)) (Some 5000000) (Some 15000)
           None False False None [])
   \<and> dict_get (factor_scores (projr (calculate_risk default_thresholds 0 (Some (1 / 100))
         (Some 5000000) (Some 15000) None False False None []))) ''distance'' 0 \<noteq> 5
   \<and> overall_score (projr (calculate_risk default_thresholds 0 (Some (1 / 100))
         (Some 5000000) (Some 15000) None False False None [])) \<noteq> 15"
  unfolding small_analysis by (simp add: dict_get_def)

subsection \<open>Impact energy\<close>

text \<open>
  Claim C8. For every diameter, velocity and density for which the computation stays within
  the float range (the two powers, the volume, the mass and the energy in joules),
  \<^verbatim>\<open>calculate_impact_energy\<close> returns
  \<open>(1/2) \<cdot> ((4/3) \<cdot> pi \<cdot> (diameter_km \<cdot> 1000 / 2)\<^sup>3 \<cdot> density) \<cdot> (velocity_kms \<cdot> 1000)\<^sup>2 / 4.184e15\<close>
  megatons of TNT; when the cube of a finite radius or the square of a finite velocity is
  out of range it raises \<^verbatim>\<open>OverflowError\<close> instead. For a diameter of 1 km, 20 km/s and
  2000 kg per cubic metre it returns an energy of about 2.094e20 J, that is about 5.0e4
  megatons (between 50047 and 50064).
\<close>

theorem C8_impact_energy:
  "(in_float_range ((diameter_km * 1000 / 2) ^ 3)
      \<and> in_float_range ((4 / 3) * pi * (diameter_km * 1000 / 2) ^ 3)
      \<and> in_float_range ((4 / 3) * pi * (diameter_km * 1000 / 2) ^ 3 * density_kg_m3)
      \<and> in_float_range ((velocity_kms * 1000) ^ 2)
      \<and> in_float_range ((1 / 2) * ((4 / 3) * pi * (diameter_km * 1000 / 2) ^ 3 * density_kg_m3)
            * (velocity_kms * 1000) ^ 2)
    \<longrightarrow> calculate_impact_energy diameter_km velocity_kms density_kg_m3 =
          Inr ((1 / 2) * ((4 / 3) * pi * (diameter_km * 1000 / 2) ^ 3 * density_kg_m3)
                 * (velocity_kms * 1000) ^ 2 / 4184000000000000))
   \<and> (in_float_range (diameter_km * 1000) \<and> \<not> in_float_range ((diameter_km * 1000 / 2) ^ 3)
    \<longrightarrow> calculate_impact_energy diameter_km velocity_kms density_kg_m3 =
          Inl (PyException ''OverflowError''))
   \<and> (in_float_range (velocity_kms * 1000) \<and> \<not> in_float_range ((velocity_kms * 1000) ^ 2)
    \<longrightarrow> calculate_impact_energy diameter_km velocity_kms density_kg_m3 =
          Inl (PyException ''OverflowError''))
   \<and> calculate_impact_energy 1 20 2000 =
       Inr (pi * (200000000000000000000 / 3) / 4184000000000000)
   \<and> 50047 < pi * (200000000000000000000 / 3) / 4184000000000000
   \<and> pi * (200000000000000000000 / 3) / 4184000000000000 < 50064
   \<and> 209400000000000000000 < pi * (200000000000000000000 / 3)
   \<and> pi * (200000000000000000000 / 3) < 209470000000000000000"
proof -
  have formula: "calculate_impact_energy d v r =
      Inr ((1 / 2) * ((4 / 3) * pi * (d * 1000 / 2) ^ 3 * r) * (v * 1000) ^ 2 / 4184000000000000)"
    if "in_float_range ((d * 1000 / 2) ^ 3)" and "in_float_range ((v * 1000) ^ 2)" for d v r
    using that unfolding calculate_impact_energy_def Let_def by simp
  have cube: "calculate_impact_energy d v r = Inl (PyException ''OverflowError'')"
    if "in_float_range (d * 1000) \<and> \<not> in_float_range ((d * 1000 / 2) ^ 3)" for d v r
    using that unfolding calculate_impact_energy_def Let_def by simp
  have square: "calculate_impact_energy d v r = Inl (PyException ''OverflowError'')"
    if "in_float_range (v * 1000) \<and> \<not> in_float_range ((v * 1000) ^ 2)" for d v r
    using that unfolding calculate_impact_energy_def Let_def by simp
  have r1: "in_float_range ((1 * 1000 / 2) ^ 3)"
    by (rule in_float_range_small) simp
  have r2: "in_float_range ((20 * 1000) ^ 2)"
    by (rule in_float_range_small) simp
  have val: "calculate_impact_energy 1 20 2000 =
       Inr (pi * (200000000000000000000 / 3) / 4184000000000000)"
    unfolding formula [OF r1 r2] by simp
  have lo: "50047 < pi * (200000000000000000000 / 3) / 4184000000000000"
    using pi_lower by simp
  have hi: "pi * (200000000000000000000 / 3) / 4184000000000000 < 50064"
    using pi_upper by simp
  have jlo: "209400000000000000000 < pi * (200000000000000000000 / 3)"
    using pi_lower by simp
  have jhi: "pi * (200000000000000000000 / 3) < 209470000000000000000"
    using pi_upper by simp
  show ?thesis
    using formula [of diameter_km velocity_kms density_kg_m3]
      cube [of diameter_km velocity_kms density_kg_m3]
      square [of velocity_kms diameter_km density_kg_m3] val lo hi jlo jhi
    by blast
qed

theorem C8_impact_energy_witness:
  "in_float_range ((1 * 1000 / 2) ^ 3)
   \<and> in_float_range ((4 / 3) * pi * (1 * 1000 / 2) ^ 3)
   \<and> in_float_range ((4 / 3) * pi * (1 * 1000 / 2) ^ 3 * 2000)
   \<and> in_float_range ((20 * 1000) ^ 2)
   \<and> in_float_range ((1 / 2) * ((4 / 3) * pi * (1 * 1000 / 2) ^ 3 * 2000) * (20 * 1000) ^ 2)
   \<and> calculate_impact_energy 1 20 2000 =
       Inr ((1 / 2) * ((4 / 3) * pi * (1 * 1000 / 2) ^ 3 * 2000)
              * (20 * 1000) ^ 2 / 4184000000000000)"
proof -
  have p: "\<bar>pi\<bar> \<le> 4" using pi_less_4 pi_gt_zero by simp
  have a: "in_float_range ((1 * 1000 / 2) ^ 3)"
    by (rule in_float_range_small) simp
  have "\<bar>(4 / 3) * pi * (1 * 1000 / 2) ^ 3\<bar> = \<bar>pi\<bar> * (500000000 / 3)"
    by (simp add: abs_mult)
  also have "\<dots> \<le> 1000000000000000000000000000000" using p by simp
  finally have b: "in_float_range ((4 / 3) * pi * (1 * 1000 / 2) ^ 3)"
    by (rule in_float_range_small)
  have "\<bar>(4 / 3) * pi * (1 * 1000 / 2) ^ 3 * 2000\<bar> = \<bar>pi\<bar> * (1000000000000 / 3)"
    by (simp add: abs_mult)
  also have "\<dots> \<le> 1000000000000000000000000000000" using p by simp
  finally have c: "in_float_range ((4 / 3) * pi * (1 * 1000 / 2) ^ 3 * 2000)"
    by (rule in_float_range_small)
  have d: "in_float_range ((20 * 1000) ^ 2)"
    by (rule in_float_range_small) simp
  have "\<bar>(1 / 2) * ((4 / 3) * pi * (1 * 1000 / 2) ^ 3 * 2000) * (20 * 1000) ^ 2\<bar>
        = \<bar>pi\<bar> * (200000000000000000000 / 3)"
    by (simp add: abs_mult)
  also have "\<dots> \<le> 1000000000000000000000000000000" using p by simp
  finally have e: "in_float_range
      ((1 / 2) * ((4 / 3) * pi * (1 * 1000 / 2) ^ 3 * 2000) * (20 * 1000) ^ 2)"
    by (rule in_float_range_small)
  from C8_impact_energy [of 1 2000 20, THEN conjunct1, rule_format] a b c d e
  show ?thesis by blast
qed

subsection \<open>Additional keyword arguments\<close>

text \<open>
  Claim C10. The keyword arguments collected in \<^verbatim>\<open>**additional_factors\<close> have no effect:
  two calls of \<^verbatim>\<open>calculate_risk\<close> with the same thresholds, the same clock reading and the
  same named arguments give the same outcome, whatever the additional arguments are.
\<close>

theorem C10_additional_factors_ignored:
  "calculate_risk th now diameter_km miss_distance_km velocity_kmh approach_date
       is_potentially_hazardous is_sentry_object absolute_magnitude additional_factors
   = calculate_risk th now diameter_km miss_distance_km velocity_kmh approach_date
       is_potentially_hazardous is_sentry_object absolute_magnitude additional_factors'"
  unfolding calculate_risk_def calculate_risk_body_def ..

subsection \<open>The confidence deduction for a missing diameter\<close>

text \<open>
  Claim C4, as amended. The confidence of a returned analysis is 1.0, less 0.3 when the
  argument \<^verbatim>\<open>diameter_km\<close> is absent, less 0.2 when \<^verbatim>\<open>miss_distance_km\<close> is absent: the
  deduction of 0.3 depends on \<^verbatim>\<open>diameter_km\<close> alone, whether or not an absolute magnitude
  is given (the diameter estimated from it serves the size score only). When both
  \<^verbatim>\<open>diameter_km\<close> and \<^verbatim>\<open>absolute_magnitude\<close> are absent the size factor score is 0.
\<close>

theorem C4_confidence_deduction:
  assumes "calculate_risk th now diameter_km miss_distance_km velocity_kmh approach_date
             is_potentially_hazardous is_sentry_object absolute_magnitude additional_factors
           = Inr analysis"
  shows "confidence analysis =
           1 - (if diameter_km = None then 3 / 10 else 0)
             - (if miss_distance_km = None then 2 / 10 else 0)
       \<and> (diameter_km = None \<and> absolute_magnitude = None \<longrightarrow>
            dict_get (factor_scores analysis) ''size'' 0 = 0)"
proof -
  have "confidence analysis =
           1 - (if diameter_km = None then 3 / 10 else 0)
             - (if miss_distance_km = None then 2 / 10 else 0)"
    unfolding calculate_risk_confidence [OF assms] by simp
  moreover have "dict_get (factor_scores analysis) ''size'' 0 = 0"
    if "diameter_km = None" "absolute_magnitude = None"
    using assms calculate_risk_size_score_missing unfolding that by blast
  ultimately show ?thesis by blast
qed

theorem C4_confidence_deduction_witness:
  "calculate_risk default_thresholds 0 None None None None False False None [] =
     Inr \<lparr> overall_score = 0, risk_level = ''very_low'', confidence = 1 / 2,
           factor_scores = [(''size'', 0), (''distance'', 0), (''velocity'', 0),
                            (''time_to_approach'', 0), (''nasa_classification'', 0)],
           primary_concerns = [], risk_factors = [], mitigating_factors = [],
           time_to_approach_days = None, approach_decade = None,
           monitoring_priority = ''low'', observation_frequency = ''yearly'' \<rparr>
   \<and> (1::real) / 2 = 1 - 3 / 10 - 2 / 10
   \<and> dict_get [(''size'', 0), (''distance'', 0), (''velocity'', 0),
                 (''time_to_approach'', 0), (''nasa_classification'', 0)] ''size'' 0 = 0"
  using C4_confidence_deduction [OF no_data_analysis [of default_thresholds 0 "[]"]]
    no_data_analysis [of default_thresholds 0 "[]"]
  by simp

text \<open>
  The claim as stated fails: with no diameter, the magnitude 20 and a miss distance, the
  estimated diameter (0.2658 km) gives the size score 18, and the confidence is still
  reduced by 0.3.
\<close>

theorem C4_counterexample:
  "\<not> isl (calculate_risk default_thresholds 0 None (Some 31000) None None False False
            (Some 20) [])
   \<and> dict_get (factor_scores (projr (calculate_risk default_thresholds 0 None (Some 31000)
         None None False False (Some 20) []))) ''size'' 0 = 18
   \<and> confidence (projr (calculate_risk default_thresholds 0 None (Some 31000)
         None None False False (Some 20) [])) = 1 - 3 / 10"
  unfolding magnitude_only_analysis by (simp add: dict_get_def)

subsection \<open>The proximity-size bonus\<close>

text \<open>
  Claim C5 says that the bonus of 5 is added exactly when both arguments are present with
  a diameter above 0.5 and a miss distance below 1,000,000. For a diameter of 0.6 km and
  a miss distance of 0.0 km \<^verbatim>\<open>calculate_risk\<close> adds no bonus (the overall score is the sum
  43 of the factor scores), while for the same diameter and a miss distance of 1 km it
  does (48): the truth test on \<^verbatim>\<open>miss_distance_km\<close> drops the zero.
\<close>

theorem C5_zero_distance_gets_no_bonus:
  "calculate_risk default_thresholds now (Some (6 / 10)) (Some 0) None None False False None [] =
     Inr \<lparr> overall_score = 43, risk_level = ''medium'', confidence = 1,
           factor_scores = [(''size'', 18), (''distance'', 25), (''velocity'', 0),
                            (''time_to_approach'', 0), (''nasa_classification'', 0)],
           primary_concerns = [],
           risk_factors = [factor_size, factor_proximity], mitigating_factors = [],
           time_to_approach_days = None, approach_decade = None,
           monitoring_priority = ''medium'', observation_frequency = ''monthly'' \<rparr>
   \<and> calculate_risk default_thresholds now (Some (6 / 10)) (Some 1) None None False False None [] =
     Inr \<lparr> overall_score = 48, risk_level = ''medium'', confidence = 1,
           factor_scores = [(''size'', 18), (''distance'', 25), (''velocity'', 0),
                            (''time_to_approach'', 0), (''nasa_classification'', 0)],
           primary_concerns = [concern_close],
           risk_factors = [factor_size, factor_proximity], mitigating_factors = [],
           time_to_approach_days = None, approach_decade = None,
           monitoring_priority = ''medium'', observation_frequency = ''monthly'' \<rparr>"
  using zero_distance_analysis [of now "[]"] one_km_distance_analysis [of now "[]"] by blast

subsection \<open>Failures of a calculation, and the batch\<close>



subsection \<open>The monitoring override\<close>

text \<open>
  Claim C6. When the time to a future approach is strictly between 0 and 30 days, the
  observation frequency is \<^verbatim>\<open>daily\<close> and the priority is the one of the risk level, with
  \<^verbatim>\<open>low\<close> raised to \<^verbatim>\<open>medium\<close> and the others unchanged; at exactly 30 days the
  recommendation is the one of the risk level alone. This holds for the function
  \<^verbatim>\<open>_determine_monitoring_recommendations\<close> and for the analysis that \<^verbatim>\<open>calculate_risk\<close>
  returns, where the days are the microseconds between the clock and the approach date.
\<close>

theorem C6_monitoring_override:
  "(0 < t \<and> t < 30 \<longrightarrow>
      determine_monitoring_recommendations score level (Some t) =
        (if fst (base_monitoring level) = ''low'' then ''medium''
         else fst (base_monitoring level), ''daily''))
   \<and> determine_monitoring_recommendations score level (Some 30) = base_monitoring level
   \<and> (calculate_risk th now diameter_km miss_distance_km velocity_kmh (Some approach_date)
         is_potentially_hazardous is_sentry_object absolute_magnitude additional_factors
       = Inr analysis \<longrightarrow>
        (now < micros approach_date \<and> micros approach_date - now < 30 * 86400000000 \<longrightarrow>
           observation_frequency analysis = ''daily''
         \<and> monitoring_priority analysis =
             (if fst (base_monitoring (risk_level analysis)) = ''low'' then ''medium''
              else fst (base_monitoring (risk_level analysis))))
      \<and> (micros approach_date - now = 30 * 86400000000 \<longrightarrow>
           (monitoring_priority analysis, observation_frequency analysis) =
             base_monitoring (risk_level analysis)))"
proof -
  have fn1: "determine_monitoring_recommendations score level (Some t) =
        (if fst (base_monitoring level) = ''low'' then ''medium''
         else fst (base_monitoring level), ''daily'')" if "0 < t \<and> t < 30"
    using that monitoring_override by blast
  have fn2: "determine_monitoring_recommendations score level (Some 30) = base_monitoring level"
    by (rule monitoring_no_override) simp
  have near: "observation_frequency analysis = ''daily''
         \<and> monitoring_priority analysis =
             (if fst (base_monitoring (risk_level analysis)) = ''low'' then ''medium''
              else fst (base_monitoring (risk_level analysis)))"
    if ret: "calculate_risk th now diameter_km miss_distance_km velocity_kmh (Some approach_date)
         is_potentially_hazardous is_sentry_object absolute_magnitude additional_factors
       = Inr analysis"
      and fut: "now < micros approach_date \<and> micros approach_date - now < 30 * 86400000000"
  proof -
    let ?D = "real_of_int (micros approach_date - now) / 1000000 / (24 * 3600)"
    have le: "now \<le> micros approach_date" using fut by simp
    have days: "time_to_approach_days analysis = Some ?D"
      by (rule calculate_risk_future_days [OF ret le])
    have pos: "0 < ?D" using fut by simp
    have "?D < real_of_int 30" unfolding days_less_iff using fut by simp
    then have lt: "?D < 30" by simp
    from calculate_risk_monitoring [OF ret] obtain sc where
      "(monitoring_priority analysis, observation_frequency analysis) =
         determine_monitoring_recommendations sc (risk_level analysis) (Some ?D)"
      unfolding days by blast
    then show ?thesis unfolding monitoring_override [OF pos lt] by simp
  qed
  have exact: "(monitoring_priority analysis, observation_frequency analysis) =
             base_monitoring (risk_level analysis)"
    if ret: "calculate_risk th now diameter_km miss_distance_km velocity_kmh (Some approach_date)
         is_potentially_hazardous is_sentry_object absolute_magnitude additional_factors
       = Inr analysis"
      and ex: "micros approach_date - now = 30 * 86400000000"
  proof -
    have le: "now \<le> micros approach_date" using ex by simp
    have days: "time_to_approach_days analysis = Some 30"
      using calculate_risk_future_days [OF ret le] unfolding ex by simp
    from calculate_risk_monitoring [OF ret] obtain sc where
      "(monitoring_priority analysis, observation_frequency analysis) =
         determine_monitoring_recommendations sc (risk_level analysis) (Some 30)"
      unfolding days by blast
    then show ?thesis using monitoring_no_override [of 30 sc "risk_level analysis"] by simp
  qed
  show ?thesis using fn1 fn2 near exact by blast
qed

theorem C6_monitoring_override_witness:
  "calculate_risk default_thresholds 0 None None None
     (Some \<lparr>tz_aware = True, year = 2026, micros = 2505600000000\<rparr>) False False None [] =
     Inr \<lparr> overall_score = 12, risk_level = ''low'', confidence = 1 / 2,
           factor_scores = [(''size'', 0), (''distance'', 0), (''velocity'', 0),
                            (''time_to_approach'', 12), (''nasa_classification'', 0)],
           primary_concerns = [concern_imminent], risk_factors = [], mitigating_factors = [],
           time_to_approach_days = Some 29, approach_decade = Some ''2020s'',
           monitoring_priority = ''medium'', observation_frequency = ''daily'' \<rparr>
   \<and> calculate_risk default_thresholds 0 None None None
     (Some \<lparr>tz_aware = True, year = 2026, micros = 2592000000000\<rparr>) False False None [] =
     Inr \<lparr> overall_score = 12, risk_level = ''low'', confidence = 1 / 2,
           factor_scores = [(''size'', 0), (''distance'', 0), (''velocity'', 0),
                            (''time_to_approach'', 12), (''nasa_classification'', 0)],
           primary_concerns = [concern_imminent], risk_factors = [], mitigating_factors = [],
           time_to_approach_days = Some 30, approach_decade = Some ''2020s'',
           monitoring_priority = ''low'', observation_frequency = ''yearly'' \<rparr>
   \<and> determine_monitoring_recommendations 12 ''low'' (Some (29999 / 1000)) = (''medium'', ''daily'')
   \<and> determine_monitoring_recommendations 12 ''low'' (Some 30) = (''low'', ''yearly'')
   \<and> base_monitoring ''low'' = (''low'', ''yearly'')"
proof -
  note t = C6_monitoring_override [of "29999 / 1000" 12 "''low''"]
  have b: "base_monitoring ''low'' = (''low'', ''yearly'')" by (simp add: base_monitoring_def)
  show ?thesis
    using t approach_in_29_days_analysis [of "[]"] approach_in_30_days_analysis [of "[]"] b
    by simp
qed

subsection \<open>Zero-valued inputs\<close>

text \<open>
  Claim C9. With positive diameter thresholds and a non-negative \<^verbatim>\<open>distance_critical\<close> (as
  the defaults are), a diameter of 0.0 gets the size factor score 2, yet the
  very-small-size entry is never among the mitigating factors; a miss distance of 0.0 gets
  the distance factor score 25, yet the extremely-close concern is never among the primary
  concerns and no bonus is added: the overall score is the sum of the factor scores,
  clamped to [0, 100].
\<close>

theorem C9_zero_valued_inputs:
  assumes "0 < diameter_critical th" and "0 < diameter_very_high th" and "0 < diameter_high th"
    and "0 < diameter_medium th" and "0 < diameter_low th" and "0 \<le> distance_critical th"
  shows "(calculate_risk th now (Some 0) miss_distance_km velocity_kmh approach_date
            is_potentially_hazardous is_sentry_object absolute_magnitude additional_factors
          = Inr analysis \<longrightarrow>
            dict_get (factor_scores analysis) ''size'' 0 = 2
          \<and> mitigating_small \<notin> set (mitigating_factors analysis))
       \<and> (calculate_risk th now' diameter_km (Some 0) velocity_kmh' approach_date'
            is_potentially_hazardous' is_sentry_object' absolute_magnitude' additional_factors'
          = Inr analysis' \<longrightarrow>
            dict_get (factor_scores analysis') ''distance'' 0 = 25
          \<and> concern_close \<notin> set (primary_concerns analysis')
          \<and> overall_score analysis' =
              max 0 (min 100 (sum_list (map snd (factor_scores analysis')))))"
proof -
  have part1: "dict_get (factor_scores analysis) ''size'' 0 = 2
          \<and> mitigating_small \<notin> set (mitigating_factors analysis)"
    if ret: "calculate_risk th now (Some 0) miss_distance_km velocity_kmh approach_date
            is_potentially_hazardous is_sentry_object absolute_magnitude additional_factors
          = Inr analysis"
  proof -
    have "size_ladder th 0 = 2" using assms by (simp add: size_ladder_def)
    then have "dict_get (factor_scores analysis) ''size'' 0 = 2"
      using calculate_risk_scores [OF ret]
      by (auto simp: calculate_size_score_Some dict_get_def)
    moreover have "mitigating_small \<notin> set (mitigating_factors analysis)"
      unfolding calculate_risk_mitigating [OF ret] by (simp add: truthy_and_simps)
    ultimately show ?thesis by blast
  qed
  have part2: "dict_get (factor_scores analysis') ''distance'' 0 = 25
          \<and> concern_close \<notin> set (primary_concerns analysis')
          \<and> overall_score analysis' =
              max 0 (min 100 (sum_list (map snd (factor_scores analysis'))))"
    if ret: "calculate_risk th now' diameter_km (Some 0) velocity_kmh' approach_date'
            is_potentially_hazardous' is_sentry_object' absolute_magnitude' additional_factors'
          = Inr analysis'"
  proof -
    have "calculate_distance_score th (Some 0) = 25"
      using assms by (simp add: calculate_distance_score_def)
    then have "dict_get (factor_scores analysis') ''distance'' 0 = 25"
      using calculate_risk_scores [OF ret] by (auto simp: dict_get_def)
    moreover have "concern_close \<notin> set (primary_concerns analysis')"
      unfolding calculate_risk_concern_close [OF ret] by (simp add: truthy_and_simps)
    moreover have "overall_score analysis' =
              max 0 (min 100 (sum_list (map snd (factor_scores analysis'))))"
      using calculate_risk_scores [OF ret] by (auto simp: truthy_and_simps)
    ultimately show ?thesis by blast
  qed
  show ?thesis using part1 part2 by blast
qed

theorem C9_zero_valued_inputs_witness:
  "calculate_risk default_thresholds 0 (Some 0) (Some 0) None None False False None [] =
     Inr \<lparr> overall_score = 27, risk_level = ''low'', confidence = 1,
           factor_scores = [(''size'', 2), (''distance'', 25), (''velocity'', 0),
                            (''time_to_approach'', 0), (''nasa_classification'', 0)],
           primary_concerns = [],
           risk_factors = [factor_proximity], mitigating_factors = [],
           time_to_approach_days = None, approach_decade = None,
           monitoring_priority = ''low'', observation_frequency = ''yearly'' \<rparr>
   \<and> 0 < diameter_critical default_thresholds \<and> 0 < diameter_very_high default_thresholds
   \<and> 0 < diameter_high default_thresholds \<and> 0 < diameter_medium default_thresholds
   \<and> 0 < diameter_low default_thresholds \<and> 0 \<le> distance_critical default_thresholds
   \<and> (27::real) = max 0 (min 100 (2 + 25 + 0 + 0 + 0))"
proof -
  have th: "0 < diameter_critical default_thresholds" "0 < diameter_very_high default_thresholds"
    "0 < diameter_high default_thresholds" "0 < diameter_medium default_thresholds"
    "0 < diameter_low default_thresholds" "0 \<le> distance_critical default_thresholds"
    by (simp_all add: default_thresholds_def)
  note eq = zero_zero_analysis [of 0 "[]"]
  from C9_zero_valued_inputs [OF th, THEN conjunct2, rule_format, OF eq] eq th
  show ?thesis by simp
qed

end
